theory Spec2Isabelle
  imports Complex_Main
begin

section \<open>The mpv controller of \<^verbatim>\<open>src/mpv_controller.py\<close>\<close>

text \<open>
  The controller object has two fields, \<^verbatim>\<open>socket_path\<close> and \<^verbatim>\<open>proc\<close>. Everything else it
  touches is outside the Python process: the socket file, the player processes it has
  launched, and the peer that answers on the socket. The model keeps the object and that
  outside world in one record and passes it through every method. A method returns the
  value or the exception (\<open>Inl\<close>) together with the state it leaves behind, because a
  Python exception does not undo the assignments made before it.
\<close>

subsection \<open>Python values and exceptions\<close>

text \<open>
  What \<^verbatim>\<open>json.loads\<close> can return. A \<^verbatim>\<open>str\<close> is the list of its UTF-8 bytes; a \<^verbatim>\<open>float\<close> is
  its (finite) value; a \<^verbatim>\<open>dict\<close> is an association list with distinct keys.
\<close>

datatype pyval =
    PNone
  | PBool bool
  | PInt int
  | PFloat rat
  | PStr string
  | PList "pyval list"
  | PDict "(string \<times> pyval) list"

datatype error =
    RuntimeError string
  | FileNotFoundError
  | TimeoutExpired
  | OSError
  | JSONDecodeError
  | AttributeError
  | TypeError
  | ValueError

text \<open>The two \<^verbatim>\<open>RuntimeError\<close>s of the module, under the names the specification uses.\<close>

definition ChannelUnavailable :: error where
  "ChannelUnavailable = RuntimeError ''IPC socket absent''"

definition LaunchTimeout :: error where
  "LaunchTimeout = RuntimeError ''IPC socket not found after starting mpv''"

text \<open>Python's truth value of an object, as \<^verbatim>\<open>bool(x)\<close>, \<^verbatim>\<open>x or d\<close> and \<^verbatim>\<open>if x\<close> use it.\<close>

fun truthy :: "pyval \<Rightarrow> bool" where
  "truthy PNone = False"
| "truthy (PBool b) = b"
| "truthy (PInt i) = (i \<noteq> 0)"
| "truthy (PFloat q) = (q \<noteq> 0)"
| "truthy (PStr t) = (t \<noteq> [])"
| "truthy (PList xs) = (xs \<noteq> [])"
| "truthy (PDict kvs) = (kvs \<noteq> [])"

definition py_or :: "pyval \<Rightarrow> pyval \<Rightarrow> pyval" where
  "py_or x d = (if truthy x then x else d)"

text \<open>
  \<^verbatim>\<open>int(x)\<close>. A float is truncated towards zero. The parser that \<^verbatim>\<open>int\<close> applies to a
  \<^verbatim>\<open>str\<close> is Python's own and is taken as the parameter \<open>str2int\<close> (\<open>None\<close> where it
  raises \<^verbatim>\<open>ValueError\<close>).
\<close>

fun py_int :: "(string \<Rightarrow> int option) \<Rightarrow> pyval \<Rightarrow> error + int" where
  "py_int str2int PNone = Inl TypeError"
| "py_int str2int (PBool b) = Inr (if b then 1 else 0)"
| "py_int str2int (PInt i) = Inr i"
| "py_int str2int (PFloat q) = Inr (if 0 \<le> q then \<lfloor>q\<rfloor> else \<lceil>q\<rceil>)"
| "py_int str2int (PStr t) = (case str2int t of None \<Rightarrow> Inl ValueError | Some i \<Rightarrow> Inr i)"
| "py_int str2int (PList xs) = Inl TypeError"
| "py_int str2int (PDict kvs) = Inl TypeError"

text \<open>\<^verbatim>\<open>str(i)\<close> of an \<^verbatim>\<open>int\<close>: its decimal digits, with a minus sign below zero.\<close>

fun digits :: "nat \<Rightarrow> string" where
  "digits n = (if n < 10 then [''0123456789'' ! n]
               else digits (n div 10) @ [''0123456789'' ! (n mod 10)])"

definition py_str :: "int \<Rightarrow> string" where
  "py_str i = (if i < 0 then CHR ''-'' # digits (nat (- i)) else digits (nat i))"

text \<open>\<^verbatim>\<open>os.path.basename\<close>: what follows the last slash; a value that is no path raises.\<close>

definition basename_str :: "string \<Rightarrow> string" where
  "basename_str p = rev (takeWhile (\<lambda>c. c \<noteq> CHR ''/'') (rev p))"

fun basename :: "pyval \<Rightarrow> error + string" where
  "basename (PStr p) = Inr (basename_str p)"
| "basename v = Inl TypeError"

text \<open>\<^verbatim>\<open>resp.get("data")\<close>: only a \<^verbatim>\<open>dict\<close> has \<^verbatim>\<open>get\<close>; a missing key gives \<^verbatim>\<open>None\<close>.\<close>

fun dict_get :: "pyval \<Rightarrow> string \<Rightarrow> error + pyval" where
  "dict_get (PDict kvs) k = Inr (case map_of kvs k of None \<Rightarrow> PNone | Some v \<Rightarrow> v)"
| "dict_get v k = Inl AttributeError"

subsection \<open>The controller and the world around it\<close>

type_synonym pid = nat

text \<open>
  What the peer on the socket does with one request: it answers with a JSON text (given
  here as decoded by \<^verbatim>\<open>json.loads\<close>), or the connection fails (\<^verbatim>\<open>connect\<close>, \<^verbatim>\<open>sendall\<close> or
  \<^verbatim>\<open>recv\<close> raises \<^verbatim>\<open>OSError\<close>), or what it sent before closing is no JSON text. A peer
  that keeps the connection open and never sends a newline would block \<^verbatim>\<open>recv\<close> for ever;
  the model leaves that peer out, so every exchange ends.
\<close>

datatype answer = Reply pyval | ConnError | DecodeError

text \<open>
  One move of the outside world, made while the controller waits in \<^verbatim>\<open>time.sleep\<close>,
  \<^verbatim>\<open>proc.wait\<close> or the socket exchange: the socket file is created or removed, some
  processes exit by themselves, the \<^verbatim>\<open>mpv\<close> executable is installed or removed, and, when
  the controller is waiting for one, an answer arrives.
\<close>

record env_move =
  sock_change :: "bool option"
  exits :: "pid list"
  answer :: answer
  binary_change :: "bool option"

record state =
  socket_path :: string
  proc :: "pid option"
  sock :: bool
  binary :: bool
  live :: "pid set"
  spawned :: "string list list"
  sent :: "string list list"
  slept_ms :: nat
  conns :: nat
  peak_conns :: nat
  peak_live :: nat
  tape :: "env_move list"

text \<open>
  \<open>socket_path\<close> and \<open>proc\<close> are the object's fields. \<open>sock\<close> says whether a file exists
  at \<open>socket_path\<close>; \<open>binary\<close> whether an \<^verbatim>\<open>mpv\<close> executable can be found; \<open>live\<close> holds
  the processes that have not exited; \<open>spawned\<close> is the argument vector of every call of
  \<^verbatim>\<open>Popen\<close> so far, the process id being the position; \<open>sent\<close> logs the command lists
  written to the socket; \<open>slept_ms\<close> adds up \<^verbatim>\<open>time.sleep\<close>; \<open>conns\<close> counts the sockets the
  controller has open; \<open>tape\<close> holds the moves the outside world is going to make.
  \<open>peak_conns\<close> and \<open>peak_live\<close> are bookkeeping: the largest number of sockets that were
  open at once, and the largest number of processes that were alive right after a launch
  (the only moment at which their number grows).
\<close>

definition MPV_SOCKET :: string where
  "MPV_SOCKET = ''/tmp/mpv-socket''"

definition MPV_PARAMS :: "string list" where
  "MPV_PARAMS =
     [''--audio-device=alsa/hdmi:CARD=PCH,DEV=0'',
      ''--fullscreen'',
      ''--sid 1'',
      ''--no-terminal'']"

text \<open>\<^verbatim>\<open>MPVController()\<close> in a world where nothing has happened yet.\<close>

definition init :: "env_move list \<Rightarrow> state" where
  "init moves =
     \<lparr>socket_path = MPV_SOCKET, proc = None, sock = False, binary = True, live = {},
      spawned = [], sent = [], slept_ms = 0, conns = 0, peak_conns = 0, peak_live = 0,
      tape = moves\<rparr>"

definition quiet :: env_move where
  "quiet = \<lparr>sock_change = None, exits = [], answer = ConnError, binary_change = None\<rparr>"

definition env_turn :: "state \<Rightarrow> env_move \<times> state" where
  "env_turn s =
     (case tape s of
        [] \<Rightarrow> (quiet, s)
      | m # ms \<Rightarrow>
          (m, s\<lparr>sock := (case sock_change m of None \<Rightarrow> sock s | Some b \<Rightarrow> b),
                binary := (case binary_change m of None \<Rightarrow> binary s | Some b \<Rightarrow> b),
                live := live s - set (exits m),
                tape := ms\<rparr>))"

subsection \<open>The calls into the operating system\<close>

text \<open>
  \<^verbatim>\<open>os.remove\<close> succeeds or raises \<^verbatim>\<open>FileNotFoundError\<close>: a socket path that cannot be
  removed is left out. \<^verbatim>\<open>Popen\<close> raises \<^verbatim>\<open>FileNotFoundError\<close> when no \<^verbatim>\<open>mpv\<close> executable is
  found; otherwise the new process is alive and gets the id that is the position of the
  call in \<open>spawned\<close>. \<^verbatim>\<open>time.sleep(0.1)\<close> lets the world make one move and adds 100 ms.
\<close>

definition path_exists :: "state \<Rightarrow> bool" where
  "path_exists s = sock s"

definition os_remove :: "state \<Rightarrow> (error + unit) \<times> state" where
  "os_remove s = (if sock s then (Inr (), s\<lparr>sock := False\<rparr>) else (Inl FileNotFoundError, s))"

definition sleep :: "state \<Rightarrow> state" where
  "sleep s = (let s' = snd (env_turn s) in s'\<lparr>slept_ms := slept_ms s' + 100\<rparr>)"

definition popen :: "string list \<Rightarrow> state \<Rightarrow> (error + pid) \<times> state" where
  "popen cmd s =
     (if binary s then
        (Inr (length (spawned s)),
         s\<lparr>spawned := spawned s @ [cmd],
           live := insert (length (spawned s)) (live s),
           peak_live := max (peak_live s) (card (insert (length (spawned s)) (live s)))\<rparr>)
      else (Inl FileNotFoundError, s\<lparr>spawned := spawned s @ [cmd]\<rparr>))"

text \<open>\<^verbatim>\<open>p.poll() is None\<close>: the process has not exited.\<close>

definition poll_is_None :: "pid \<Rightarrow> state \<Rightarrow> bool" where
  "poll_is_None p s = (p \<in> live s)"

text \<open>\<^verbatim>\<open>p.wait(timeout=3)\<close>: the world moves; a process still there afterwards timed out.\<close>

definition proc_wait :: "pid \<Rightarrow> state \<Rightarrow> (error + unit) \<times> state" where
  "proc_wait p s =
     (let s' = snd (env_turn s)
      in if p \<in> live s' then (Inl TimeoutExpired, s') else (Inr (), s'))"

definition proc_kill :: "pid \<Rightarrow> state \<Rightarrow> state" where
  "proc_kill p s = s\<lparr>live := live s - {p}\<rparr>"

subsection \<open>Sequencing\<close>

text \<open>A statement after a call runs only when the call did not raise.\<close>

definition and_then ::
  "(error + 'a) \<times> state \<Rightarrow> ('a \<Rightarrow> state \<Rightarrow> (error + 'b) \<times> state) \<Rightarrow> (error + 'b) \<times> state" where
  "and_then r f = (case r of (Inl e, s) \<Rightarrow> (Inl e, s) | (Inr x, s) \<Rightarrow> f x s)"

subsection \<open>The methods of \<^verbatim>\<open>MPVController\<close>\<close>

definition clean_socket :: "state \<Rightarrow> (error + unit) \<times> state" where
  "clean_socket s =
     (case os_remove s of
        (Inl FileNotFoundError, s') \<Rightarrow> (Inr (), s')
      | r \<Rightarrow> r)"

text \<open>
  \<^verbatim>\<open>__send_recv\<close>. Every payload of the module is \<^verbatim>\<open>{"command": cmd}\<close>, so the model
  passes \<open>cmd\<close>. \<open>sock_open\<close> is the creation of the socket object at the head of the
  \<^verbatim>\<open>with\<close> block; \<open>sock_talk\<close> is the body of the block, \<^verbatim>\<open>connect\<close> to \<^verbatim>\<open>json.loads\<close>, and
  the closing of the socket when the block is left, on every path. A failed connection
  has sent nothing.
\<close>

definition sock_open :: "state \<Rightarrow> state" where
  "sock_open s = s\<lparr>conns := conns s + 1, peak_conns := max (peak_conns s) (conns s + 1)\<rparr>"

definition sock_talk :: "string list \<Rightarrow> state \<Rightarrow> (error + pyval) \<times> state" where
  "sock_talk cmd s =
     (case env_turn s of
        (m, s') \<Rightarrow>
          (case answer m of
             ConnError \<Rightarrow> (Inl OSError, s'\<lparr>conns := conns s' - 1\<rparr>)
           | DecodeError \<Rightarrow>
               (Inl JSONDecodeError, s'\<lparr>conns := conns s' - 1, sent := sent s' @ [cmd]\<rparr>)
           | Reply v \<Rightarrow> (Inr v, s'\<lparr>conns := conns s' - 1, sent := sent s' @ [cmd]\<rparr>)))"

definition send_recv :: "string list \<Rightarrow> state \<Rightarrow> (error + pyval) \<times> state" where
  "send_recv cmd s =
     (if \<not> path_exists s then (Inl (RuntimeError ''IPC socket absent''), s)
      else sock_talk cmd (sock_open s))"

definition command :: "string list \<Rightarrow> state \<Rightarrow> (error + unit) \<times> state" where
  "command cmd s = and_then (send_recv cmd s) (\<lambda>resp s'. (Inr (), s'))"

definition get :: "string \<Rightarrow> state \<Rightarrow> (error + pyval) \<times> state" where
  "get prop s =
     and_then (send_recv [''get_property'', prop] s) (\<lambda>resp s'. (dict_get resp ''data'', s'))"

definition show_text :: "string \<Rightarrow> int \<Rightarrow> state \<Rightarrow> (error + unit) \<times> state" where
  "show_text txt duration_ms s =
     (case command [''show-text'', txt, py_str duration_ms] s of
        (Inl (RuntimeError msg), s') \<Rightarrow> (Inr (), s')
      | r \<Rightarrow> r)"

text \<open>The notification texts, as the bytes of the literals in the source file.\<close>

definition text_paused :: string where
  "text_paused = [CHR 0xC3, CHR 0xA2, CHR 0xC2, CHR 0xB8] @ '' Paused''"

definition text_playing :: string where
  "text_playing = [CHR 0xC3, CHR 0xA2, CHR 0xE2, CHR 0x80, CHR 0x93, CHR 0xC2, CHR 0xB6] @ '' Playing''"

definition text_forward :: string where
  "text_forward = [CHR 0xC3, CHR 0xA2, CHR 0xC2, CHR 0xA9] @ '' +''"

definition text_backward :: string where
  "text_backward = [CHR 0xC3, CHR 0xA2, CHR 0xC2, CHR 0xAA] @ '' -''"

definition text_volume :: string where
  "text_volume = [CHR 0xC4, CHR 0x9F, CHR 0xC5, CHR 0xB8, CHR 0xE2, CHR 0x80, CHR 0x9D, CHR 0xC5, CHR 0xA0] @ '' ''"

definition pause :: "state \<Rightarrow> (error + unit) \<times> state" where
  "pause s =
     and_then (command [''cycle'', ''pause''] s) (\<lambda>u s1.
     and_then (get ''pause'' s1) (\<lambda>v s2.
       show_text (if truthy v then text_paused else text_playing) 1200 s2))"

definition seek :: "int \<Rightarrow> state \<Rightarrow> (error + unit) \<times> state" where
  "seek delta s =
     and_then (command [''seek'', py_str delta, ''relative''] s) (\<lambda>u s1.
       show_text ((if delta > 0 then text_forward else text_backward) @ py_str (abs delta) @ '' s'')
         1000 s1)"

definition volume :: "(string \<Rightarrow> int option) \<Rightarrow> int \<Rightarrow> state \<Rightarrow> (error + unit) \<times> state" where
  "volume str2int delta s =
     and_then (command [''add'', ''volume'', py_str delta] s) (\<lambda>u s1.
     and_then (get ''volume'' s1) (\<lambda>v s2.
     and_then (py_int str2int (py_or v (PInt 0)), s2) (\<lambda>vol s3.
       show_text (text_volume @ py_str vol @ ''%'') 1000 s3)))"

text \<open>\<^verbatim>\<open>self.proc and self.proc.poll() is None\<close>, the test \<^verbatim>\<open>stop\<close> makes.\<close>

definition active :: "state \<Rightarrow> bool" where
  "active s = (case proc s of None \<Rightarrow> False | Some p \<Rightarrow> poll_is_None p s)"

definition stop :: "state \<Rightarrow> (error + unit) \<times> state" where
  "stop s =
     and_then
       (case proc s of
          None \<Rightarrow> (Inr (), s)
        | Some p \<Rightarrow>
            if poll_is_None p s then
              and_then (command [''quit''] s) (\<lambda>u s1.
                (case proc_wait p s1 of
                   (Inl TimeoutExpired, s2) \<Rightarrow> (Inr (), proc_kill p s2)
                 | r \<Rightarrow> r))
            else (Inr (), s))
       (\<lambda>u s3. clean_socket (s3\<lparr>proc := None\<rparr>))"

text \<open>
  The \<^verbatim>\<open>for _ in range(50)\<close> loop of \<^verbatim>\<open>start\<close> with \<open>n\<close> rounds left; \<open>False\<close> is its
  \<^verbatim>\<open>else\<close> branch, taken when no round found the socket.
\<close>

fun poll_socket :: "nat \<Rightarrow> state \<Rightarrow> bool \<times> state" where
  "poll_socket 0 s = (False, s)"
| "poll_socket (Suc n) s = (if path_exists s then (True, s) else poll_socket n (sleep s))"

definition mpv_cmd :: "string \<Rightarrow> string \<Rightarrow> string list" where
  "mpv_cmd path media = [''mpv'', ''--input-ipc-server='' @ path] @ MPV_PARAMS @ [media]"

definition start :: "string \<Rightarrow> state \<Rightarrow> (error + unit) \<times> state" where
  "start media s =
     and_then (stop s) (\<lambda>u s1.
     and_then (clean_socket s1) (\<lambda>u s2.
     and_then (popen (mpv_cmd (socket_path s2) media) s2) (\<lambda>p s3.
       (case poll_socket 50 (s3\<lparr>proc := Some p\<rparr>) of
          (True, s4) \<Rightarrow> (Inr (), s4)
        | (False, s4) \<Rightarrow>
            (Inl (RuntimeError ''IPC socket not found after starting mpv''), s4)))))"

text \<open>
  \<^verbatim>\<open>status\<close> returns a \<^verbatim>\<open>dict\<close>, given as the list of its items in the order of the
  literal, which is also the order in which Python evaluates them.
\<close>

definition status :: "(string \<Rightarrow> int option) \<Rightarrow> state \<Rightarrow> (error + (string \<times> pyval) list) \<times> state" where
  "status str2int s =
     (if (case proc s of None \<Rightarrow> True | Some p \<Rightarrow> poll_is_None p s)
      then (Inr [(''running'', PBool False)], s)
      else
        and_then (get ''path'' s) (\<lambda>v1 s1.
        and_then (basename (py_or v1 (PStr [])), s1) (\<lambda>file s1.
        and_then (get ''pause'' s1) (\<lambda>v2 s2.
        and_then (get ''volume'' s2) (\<lambda>v3 s3.
        and_then (py_int str2int (py_or v3 (PInt 0)), s3) (\<lambda>vol s3.
          (Inr [(''running'', PBool True),
                (''file'', PStr file),
                (''paused'', PBool (truthy v2)),
                (''volume'', PInt vol)], s3)))))))"

subsection \<open>Calls in sequence\<close>

text \<open>
  \<^verbatim>\<open>create_app\<close> in \<^verbatim>\<open>src/app.py\<close> makes one controller and routes every request to one of its
  methods. An exception ends the request and the object stays as the method left it.
  Between two requests the outside world may move (\<open>World\<close>).
\<close>

datatype call = Start string | Stop | Pause | Seek int | Volume int | Status | World

fun do_call :: "(string \<Rightarrow> int option) \<Rightarrow> call \<Rightarrow> state \<Rightarrow> state" where
  "do_call str2int (Start media) s = snd (start media s)"
| "do_call str2int Stop s = snd (stop s)"
| "do_call str2int Pause s = snd (pause s)"
| "do_call str2int (Seek delta) s = snd (seek delta s)"
| "do_call str2int (Volume delta) s = snd (volume str2int delta s)"
| "do_call str2int Status s = snd (status str2int s)"
| "do_call str2int World s = snd (env_turn s)"

definition run :: "(string \<Rightarrow> int option) \<Rightarrow> call list \<Rightarrow> state \<Rightarrow> state" where
  "run str2int calls s = fold (do_call str2int) calls s"

text \<open>\<open>n\<close> calls of \<^verbatim>\<open>stop\<close> in a row, the world moving in between, up to the first that raises.\<close>

fun stops :: "nat \<Rightarrow> state \<Rightarrow> (error + unit) \<times> state" where
  "stops 0 s = (Inr (), s)"
| "stops (Suc n) s = and_then (stop s) (\<lambda>u s'. stops n (snd (env_turn s')))"

subsection \<open>The methods, statement by statement\<close>

text \<open>
  The controller takes no lock, and \<^verbatim>\<open>src/app.py\<close> serves its requests on threads
  (\<^verbatim>\<open>app.run(..., threaded=True)\<close>), so the statements of two calls on the one controller
  can alternate. For that each method is given a second time, as the list of the
  statements it still has to run. A statement that calls another method puts that
  method's statements in front. \<^verbatim>\<open>self.proc\<close> is read anew by every statement that uses it,
  as the attribute access of the source does.
\<close>

text \<open>What the caller of \<^verbatim>\<open>__send_recv\<close> does with the reply.\<close>

datatype use =
    Ignore
  | Use_path
  | Use_pause string
  | Use_volume string bool
  | Use_pause_text
  | Use_volume_text

datatype step =
    Sock_open "string list" use
  | Sock_talk "string list" use
  | Show string int
  | Stop_test
  | Stop_wait
  | Stop_kill
  | Stop_clear
  | Clean
  | Popen string
  | Poll nat
  | Status_test

datatype outcome = Next "step list" | Raised error | Returned pyval

text \<open>\<^verbatim>\<open>resp.get("data")\<close> and what follows it in the statement that made the query.\<close>

definition on_data :: "pyval \<Rightarrow> (pyval \<Rightarrow> outcome) \<Rightarrow> outcome" where
  "on_data resp k = (case dict_get resp ''data'' of Inl e \<Rightarrow> Raised e | Inr d \<Rightarrow> k d)"

fun consume :: "(string \<Rightarrow> int option) \<Rightarrow> use \<Rightarrow> pyval \<Rightarrow> outcome" where
  "consume str2int Ignore resp = Next []"
| "consume str2int Use_path resp =
     on_data resp (\<lambda>d.
       (case basename (py_or d (PStr [])) of
          Inl e \<Rightarrow> Raised e
        | Inr file \<Rightarrow> Next [Sock_open [''get_property'', ''pause''] (Use_pause file)]))"
| "consume str2int (Use_pause file) resp =
     on_data resp (\<lambda>d. Next [Sock_open [''get_property'', ''volume''] (Use_volume file (truthy d))])"
| "consume str2int (Use_volume file paused) resp =
     on_data resp (\<lambda>d.
       (case py_int str2int (py_or d (PInt 0)) of
          Inl e \<Rightarrow> Raised e
        | Inr vol \<Rightarrow>
            Returned (PDict [(''running'', PBool True),
                             (''file'', PStr file),
                             (''paused'', PBool paused),
                             (''volume'', PInt vol)])))"
| "consume str2int Use_pause_text resp =
     on_data resp (\<lambda>d. Next [Show (if truthy d then text_paused else text_playing) 1200])"
| "consume str2int Use_volume_text resp =
     on_data resp (\<lambda>d.
       (case py_int str2int (py_or d (PInt 0)) of
          Inl e \<Rightarrow> Raised e
        | Inr vol \<Rightarrow> Next [Show (text_volume @ py_str vol @ ''%'') 1000]))"

text \<open>
  One statement. \<open>Sock_open\<close> is lines 72 to 74 of \<^verbatim>\<open>__send_recv\<close> and \<open>Sock_talk\<close> the rest
  of it, with what the caller computes from the reply without touching the object.
  \<open>Show\<close> is \<^verbatim>\<open>show_text\<close>, whose handler catches the \<^verbatim>\<open>RuntimeError\<close> of the missing socket
  file. \<open>Poll\<close> is one round of the loop of \<^verbatim>\<open>start\<close>.
\<close>

fun exec_step :: "(string \<Rightarrow> int option) \<Rightarrow> step \<Rightarrow> state \<Rightarrow> outcome \<times> state" where
  "exec_step str2int (Sock_open cmd u) s =
     (if \<not> path_exists s then (Raised (RuntimeError ''IPC socket absent''), s)
      else (Next [Sock_talk cmd u], sock_open s))"
| "exec_step str2int (Sock_talk cmd u) s =
     (case sock_talk cmd s of
        (Inl e, s') \<Rightarrow> (Raised e, s')
      | (Inr resp, s') \<Rightarrow> (consume str2int u resp, s'))"
| "exec_step str2int (Show txt duration_ms) s =
     (if \<not> path_exists s then (Next [], s)
      else (Next [Sock_talk [''show-text'', txt, py_str duration_ms] Ignore], sock_open s))"
| "exec_step str2int Stop_test s =
     (if active s then (Next [Sock_open [''quit''] Ignore, Stop_wait], s) else (Next [], s))"
| "exec_step str2int Stop_wait s =
     (case proc s of
        None \<Rightarrow> (Raised AttributeError, s)
      | Some p \<Rightarrow>
          (case proc_wait p s of
             (Inl TimeoutExpired, s') \<Rightarrow> (Next [Stop_kill], s')
           | (Inl e, s') \<Rightarrow> (Raised e, s')
           | (Inr u, s') \<Rightarrow> (Next [], s')))"
| "exec_step str2int Stop_kill s =
     (case proc s of
        None \<Rightarrow> (Raised AttributeError, s)
      | Some p \<Rightarrow> (Next [], proc_kill p s))"
| "exec_step str2int Stop_clear s = (Next [], s\<lparr>proc := None\<rparr>)"
| "exec_step str2int Clean s =
     (case clean_socket s of
        (Inl e, s') \<Rightarrow> (Raised e, s')
      | (Inr u, s') \<Rightarrow> (Next [], s'))"
| "exec_step str2int (Popen media) s =
     (case popen (mpv_cmd (socket_path s) media) s of
        (Inl e, s') \<Rightarrow> (Raised e, s')
      | (Inr p, s') \<Rightarrow> (Next [], s'\<lparr>proc := Some p\<rparr>))"
| "exec_step str2int (Poll 0) s =
     (Raised (RuntimeError ''IPC socket not found after starting mpv''), s)"
| "exec_step str2int (Poll (Suc n)) s =
     (if path_exists s then (Next [], s) else (Next [Poll n], sleep s))"
| "exec_step str2int Status_test s =
     (if (case proc s of None \<Rightarrow> True | Some p \<Rightarrow> poll_is_None p s)
      then (Returned (PDict [(''running'', PBool False)]), s)
      else (Next [Sock_open [''get_property'', ''path''] Use_path], s))"

definition stop_steps :: "step list" where
  "stop_steps = [Stop_test, Stop_clear, Clean]"

definition start_steps :: "string \<Rightarrow> step list" where
  "start_steps media = stop_steps @ [Clean, Popen media, Poll 50]"

definition pause_steps :: "step list" where
  "pause_steps =
     [Sock_open [''cycle'', ''pause''] Ignore,
      Sock_open [''get_property'', ''pause''] Use_pause_text]"

definition seek_steps :: "int \<Rightarrow> step list" where
  "seek_steps delta =
     [Sock_open [''seek'', py_str delta, ''relative''] Ignore,
      Show ((if delta > 0 then text_forward else text_backward) @ py_str (abs delta) @ '' s'') 1000]"







text \<open>Two calls on one controller, their statements taken in the order of a schedule.\<close>

datatype thread = Running "step list" | Failed error | Finished "pyval option"

definition settle :: "step list \<Rightarrow> thread" where
  "settle steps = (if steps = [] then Finished None else Running steps)"

fun thread_step :: "(string \<Rightarrow> int option) \<Rightarrow> thread \<Rightarrow> state \<Rightarrow> thread \<times> state" where
  "thread_step str2int (Running []) s = (Finished None, s)"
| "thread_step str2int (Running (st # rest)) s =
     (case exec_step str2int st s of
        (Next new, s') \<Rightarrow> (settle (new @ rest), s')
      | (Raised e, s') \<Rightarrow> (Failed e, s')
      | (Returned v, s') \<Rightarrow> (Finished (Some v), s'))"
| "thread_step str2int t s = (t, s)"

fun interleave ::
  "(string \<Rightarrow> int option) \<Rightarrow> bool list \<Rightarrow> thread \<times> thread \<times> state \<Rightarrow> thread \<times> thread \<times> state" where
  "interleave str2int [] c = c"
| "interleave str2int (b # bs) (ta, tb, s) =
     (if b then (case thread_step str2int ta s of (ta', s') \<Rightarrow> interleave str2int bs (ta', tb, s'))
      else (case thread_step str2int tb s of (tb', s') \<Rightarrow> interleave str2int bs (ta, tb', s')))"




subsection \<open>Notions used in the statements\<close>

text \<open>The state after a move \<open>m\<close> taken from the head of the tape.\<close>

definition after_move :: "env_move \<Rightarrow> state \<Rightarrow> state" where
  "after_move m s =
     s\<lparr>sock := (case sock_change m of None \<Rightarrow> sock s | Some b \<Rightarrow> b),
       binary := (case binary_change m of None \<Rightarrow> binary s | Some b \<Rightarrow> b),
       live := live s - set (exits m),
       tape := tl (tape s)\<rparr>"

text \<open>The state after an exchange of \<open>cmd\<close> that the move \<open>m\<close> answered.\<close>

definition after_talk :: "env_move \<Rightarrow> string list \<Rightarrow> state \<Rightarrow> state" where
  "after_talk m cmd s =
     (after_move m s)\<lparr>peak_conns := max (peak_conns s) (conns s + 1), sent := sent s @ [cmd]\<rparr>"

text \<open>What \<^verbatim>\<open>get\<close> returns for a reply that is the JSON object \<open>kvs\<close>.\<close>

definition data_of :: "(string \<times> pyval) list \<Rightarrow> pyval" where
  "data_of kvs = (case map_of kvs ''data'' of None \<Rightarrow> PNone | Some v \<Rightarrow> v)"

text \<open>\<^verbatim>\<open>status\<close> gets past its first \<^verbatim>\<open>return\<close> and queries the properties.\<close>

definition status_queries :: "state \<Rightarrow> bool" where
  "status_queries s = (\<not> (case proc s of None \<Rightarrow> True | Some p \<Rightarrow> poll_is_None p s))"

text \<open>Every process that has not exited is the one the controller tracks.\<close>

definition one_live :: "state \<Rightarrow> bool" where
  "one_live s = (\<forall>p \<in> live s. proc s = Some p)"

text \<open>
  The same, with the bookkeeping: never were two processes alive at once or two sockets
  open at once, and no socket is open now.
\<close>

definition settled :: "state \<Rightarrow> bool" where
  "settled s = (one_live s \<and> peak_live s \<le> 1 \<and> conns s = 0 \<and> peak_conns s \<le> 1)"

text \<open>What no method but \<^verbatim>\<open>start\<close> and \<^verbatim>\<open>stop\<close> changes, and what only shrinks.\<close>

definition keeps :: "state \<Rightarrow> state \<Rightarrow> bool" where
  "keeps s s' =
     (proc s' = proc s \<and> socket_path s' = socket_path s \<and> spawned s' = spawned s \<and>
      live s' \<subseteq> live s \<and> set (tape s') \<subseteq> set (tape s) \<and>
      peak_live s' = peak_live s \<and> conns s' = conns s \<and>
      peak_conns s' \<le> max (peak_conns s) (conns s + 1))"

text \<open>
  The state in which \<^verbatim>\<open>start\<close> begins to poll, \<open>s1\<close> being what \<^verbatim>\<open>stop\<close> left and the
  executable being there.
\<close>

definition launched :: "string \<Rightarrow> state \<Rightarrow> state" where
  "launched media s1 =
     s1\<lparr>sock := False,
        spawned := spawned s1 @ [mpv_cmd (socket_path s1) media],
        live := insert (length (spawned s1)) (live s1),
        peak_live := max (peak_live s1) (card (insert (length (spawned s1)) (live s1))),
        proc := Some (length (spawned s1))\<rparr>"

subsection \<open>Concrete worlds\<close>

definition mv :: "bool option \<Rightarrow> pid list \<Rightarrow> answer \<Rightarrow> env_move" where
  "mv c e a = \<lparr>sock_change = c, exits = e, answer = a, binary_change = None\<rparr>"

text \<open>The player creates its socket.\<close>

definition appears :: env_move where
  "appears = mv (Some True) [] ConnError"

text \<open>The player answers a request with \<^verbatim>\<open>{"error": "success"}\<close>, a reply without \<^verbatim>\<open>data\<close>.\<close>

definition bare_reply :: env_move where
  "bare_reply = mv None [] (Reply (PDict [(''error'', PStr ''success'')]))"

text \<open>The player exits and its socket goes with it.\<close>

definition dies :: env_move where
  "dies = mv (Some False) [0] ConnError"

text \<open>A parser for \<^verbatim>\<open>int\<close> that accepts no string, where no string is converted.\<close>

definition no_str :: "string \<Rightarrow> int option" where
  "no_str t = None"

text \<open>The player answers a property query with \<open>v\<close>.\<close>

definition gives :: "pyval \<Rightarrow> env_move" where
  "gives v = mv None [] (Reply (PDict [(''data'', v), (''error'', PStr ''success'')]))"

text \<open>The player answers \<^verbatim>\<open>quit\<close>, exits and takes its socket with it.\<close>

definition quits :: env_move where
  "quits = mv (Some False) [0] (Reply (PDict [(''error'', PStr ''success'')]))"

text \<open>The second player running after the first was replaced.\<close>

definition replaced :: state where
  "replaced =
     \<lparr>socket_path = MPV_SOCKET, proc = Some 1, sock = True, binary = True, live = {1},
      spawned = [mpv_cmd MPV_SOCKET ''/media/a.mkv'', mpv_cmd MPV_SOCKET ''/media/b.mkv''],
      sent = [[''quit'']], slept_ms = 200, conns = 0, peak_conns = 1, peak_live = 1,
      tape = []\<rparr>"

text \<open>The player has exited; the flag says whether its socket file is still there.\<close>

definition exited :: "bool \<Rightarrow> env_move list \<Rightarrow> state" where
  "exited file moves =
     \<lparr>socket_path = MPV_SOCKET, proc = Some 0, sock = file, binary = True, live = {},
      spawned = [mpv_cmd MPV_SOCKET ''/media/movie.mkv''], sent = [], slept_ms = 100,
      conns = 0, peak_conns = 0, peak_live = 1, tape = moves\<rparr>"

text \<open>A new controller on a machine without \<^verbatim>\<open>mpv\<close>.\<close>

definition no_mpv :: "env_move list \<Rightarrow> state" where
  "no_mpv moves = (init moves)\<lparr>binary := False\<rparr>"


text \<open>One player running, as a successful \<^verbatim>\<open>start\<close> from \<open>init\<close> leaves things.\<close>

definition playing :: "string \<Rightarrow> env_move list \<Rightarrow> state" where
  "playing media moves =
     \<lparr>socket_path = MPV_SOCKET, proc = Some 0, sock = True, binary = True, live = {0},
      spawned = [mpv_cmd MPV_SOCKET media], sent = [], slept_ms = 100, conns = 0,
      peak_conns = 0, peak_live = 1, tape = moves\<rparr>"

text \<open>A player that never created its socket, as the failed \<^verbatim>\<open>start\<close> leaves things.\<close>

definition stuck :: "string \<Rightarrow> state" where
  "stuck media =
     \<lparr>socket_path = MPV_SOCKET, proc = Some 0, sock = False, binary = True, live = {0},
      spawned = [mpv_cmd MPV_SOCKET media], sent = [], slept_ms = 5000, conns = 0,
      peak_conns = 0, peak_live = 1, tape = []\<rparr>"

section \<open>Basic facts\<close>

lemma and_then_Inl: "and_then (Inl e, s) f = (Inl e, s)"
  by (simp add: and_then_def)

lemma and_then_Inr: "and_then (Inr x, s) f = f x s"
  by (simp add: and_then_def)

lemma send_recv_absent: "\<not> sock s \<Longrightarrow> send_recv cmd s = (Inl ChannelUnavailable, s)"
  by (simp add: send_recv_def path_exists_def ChannelUnavailable_def)

lemma command_absent: "\<not> sock s \<Longrightarrow> command cmd s = (Inl ChannelUnavailable, s)"
  by (simp add: command_def send_recv_absent and_then_Inl)

lemma get_absent: "\<not> sock s \<Longrightarrow> get prop s = (Inl ChannelUnavailable, s)"
  by (simp add: get_def send_recv_absent and_then_Inl)

lemma show_text_absent: "\<not> sock s \<Longrightarrow> show_text txt d s = (Inr (), s)"
  by (simp add: show_text_def command_absent ChannelUnavailable_def)

lemma env_turn_Cons: "tape s = m # ms \<Longrightarrow> env_turn s = (m, after_move m s)"
  by (simp add: env_turn_def after_move_def)

lemma send_recv_Reply:
  "sock s \<Longrightarrow> tape s = m # ms \<Longrightarrow> answer m = Reply v \<Longrightarrow>
   send_recv cmd s = (Inr v, after_talk m cmd s)"
  by (cases "sock_change m"; cases "binary_change m")
    (simp_all add: send_recv_def sock_talk_def sock_open_def path_exists_def env_turn_def
      after_move_def after_talk_def)

lemma command_Reply:
  "sock s \<Longrightarrow> tape s = m # ms \<Longrightarrow> answer m = Reply v \<Longrightarrow>
   command cmd s = (Inr (), after_talk m cmd s)"
  by (simp add: command_def send_recv_Reply and_then_Inr)

lemma get_Reply:
  "sock s \<Longrightarrow> tape s = m # ms \<Longrightarrow> answer m = Reply v \<Longrightarrow>
   get prop s = (dict_get v ''data'', after_talk m [''get_property'', prop] s)"
  by (simp add: get_def send_recv_Reply and_then_Inr)

lemma after_move_sock:
  "sock (after_talk m cmd s) = (case sock_change m of None \<Rightarrow> sock s | Some b \<Rightarrow> b)"
  by (simp add: after_move_def after_talk_def)

lemma after_move_tape: "tape (after_talk m cmd s) = tl (tape s)"
  by (simp add: after_move_def after_talk_def)

lemma after_talk_sent: "sent (after_talk m cmd s) = sent s @ [cmd]"
  by (simp add: after_talk_def)

lemma clean_socket_eq: "clean_socket s = (Inr (), s\<lparr>sock := False\<rparr>)"
  by (simp add: clean_socket_def os_remove_def)

lemma stop_inactive: "\<not> active s \<Longrightarrow> stop s = (Inr (), s\<lparr>proc := None, sock := False\<rparr>)"
  by (auto simp: stop_def active_def and_then_Inr clean_socket_eq split: option.splits)

lemma stop_idle: "proc s = None \<Longrightarrow> stop s = (Inr (), s\<lparr>sock := False\<rparr>)"
  by (simp add: stop_def and_then_Inr clean_socket_eq)

lemma env_turn_frame:
  "proc (snd (env_turn s)) = proc s"
  "socket_path (snd (env_turn s)) = socket_path s"
  "spawned (snd (env_turn s)) = spawned s"
  "sent (snd (env_turn s)) = sent s"
  "slept_ms (snd (env_turn s)) = slept_ms s"
  by (simp_all add: env_turn_def split: list.splits)

lemma env_turn_live: "live (snd (env_turn s)) \<subseteq> live s"
  by (auto simp: env_turn_def split: list.splits)

lemma env_turn_inactive: "\<not> active s \<Longrightarrow> \<not> active (snd (env_turn s))"
  using env_turn_live [of s]
  by (auto simp: active_def poll_is_None_def env_turn_frame split: option.splits)

lemma stops_inactive: "\<not> active s \<Longrightarrow> fst (stops n s) = Inr () \<and> \<not> active (snd (stops n s))"
proof (induction n arbitrary: s)
  case 0
  then show ?case by simp
next
  case (Suc n)
  let ?s' = "s\<lparr>proc := None, sock := False\<rparr>"
  have "\<not> active ?s'" by (simp add: active_def)
  then have "\<not> active (snd (env_turn ?s'))" by (rule env_turn_inactive)
  then show ?case
    using Suc.prems by (simp add: stop_inactive and_then_Inr Suc.IH)
qed

lemma stops_idle: "proc s = None \<Longrightarrow> proc (snd (stops n s)) = None"
proof (induction n arbitrary: s)
  case 0
  then show ?case by simp
next
  case (Suc n)
  have "proc (snd (env_turn (s\<lparr>sock := False\<rparr>))) = None"
    using Suc.prems by (simp add: env_turn_frame)
  then show ?case
    using Suc.prems by (simp add: stop_idle and_then_Inr Suc.IH)
qed

lemma keeps_refl: "keeps s s"
  by (simp add: keeps_def)

lemma keeps_trans: "keeps s s1 \<Longrightarrow> keeps s1 s2 \<Longrightarrow> keeps s s2"
  by (auto simp: keeps_def)

lemma keeps_sent: "keeps s s' \<Longrightarrow> keeps s (s'\<lparr>sent := x\<rparr>)"
  by (simp add: keeps_def)

lemma keeps_slept: "keeps s s' \<Longrightarrow> keeps s (s'\<lparr>slept_ms := x\<rparr>)"
  by (simp add: keeps_def)

lemma env_turn_keeps: "keeps s (snd (env_turn s))"
  by (auto simp: keeps_def env_turn_def split: list.splits)

lemma and_then_keeps:
  assumes "keeps s (snd r)" and "\<And>x s1. keeps s s1 \<Longrightarrow> keeps s (snd (f x s1))"
  shows "keeps s (snd (and_then r f))"
proof (cases r)
  case (Pair a s1)
  then show ?thesis using assms by (cases a) (simp_all add: and_then_def)
qed

lemma send_recv_keeps: "keeps s (snd (send_recv cmd s))"
  by (auto simp: keeps_def send_recv_def sock_talk_def sock_open_def path_exists_def
      env_turn_def split: prod.splits answer.splits list.splits)

lemma command_keeps: "keeps s (snd (command cmd s))"
  unfolding command_def by (rule and_then_keeps) (simp_all add: send_recv_keeps)

lemma get_keeps: "keeps s (snd (get prop s))"
  unfolding get_def by (rule and_then_keeps) (simp_all add: send_recv_keeps)

lemma show_text_keeps: "keeps s (snd (show_text txt d s))"
proof -
  obtain r s' where c: "command [''show-text'', txt, py_str d] s = (r, s')"
    by (cases "command [''show-text'', txt, py_str d] s")
  then have "keeps s s'" using command_keeps [of s "[''show-text'', txt, py_str d]"] by simp
  then show ?thesis
    using c by (simp add: show_text_def split: sum.splits error.splits)
qed

lemma show_text_keeps_trans: "keeps s s1 \<Longrightarrow> keeps s (snd (show_text txt d s1))"
  using keeps_trans show_text_keeps by blast

lemma get_keeps_trans: "keeps s s1 \<Longrightarrow> keeps s (snd (get prop s1))"
  using keeps_trans get_keeps by blast

lemma pause_keeps: "keeps s (snd (pause s))"
  unfolding pause_def
  by (intro and_then_keeps command_keeps get_keeps_trans show_text_keeps_trans) 

lemma seek_keeps: "keeps s (snd (seek delta s))"
  unfolding seek_def
  by (intro and_then_keeps command_keeps get_keeps_trans show_text_keeps_trans)

lemma volume_keeps: "keeps s (snd (volume str2int delta s))"
  unfolding volume_def
  by (intro and_then_keeps command_keeps get_keeps_trans show_text_keeps_trans) simp_all

lemma status_keeps: "keeps s (snd (status str2int s))"
  unfolding status_def
  by (auto intro!: and_then_keeps get_keeps get_keeps_trans simp: keeps_refl)

lemma sleep_keeps: "keeps s (sleep s)"
  unfolding sleep_def Let_def by (intro keeps_slept env_turn_keeps)

lemma poll_socket_keeps: "keeps s (snd (poll_socket n s))"
proof (induction n arbitrary: s)
  case 0
  then show ?case by (simp add: keeps_refl)
next
  case (Suc n)
  show ?case
    using keeps_trans [OF sleep_keeps Suc.IH] by (simp add: keeps_refl)
qed

lemma wait_or_kill:
  "(case proc_wait p s of (Inl TimeoutExpired, s2) \<Rightarrow> (Inr (), proc_kill p s2) | r \<Rightarrow> r) =
   (Inr (), (snd (env_turn s))\<lparr>live := live (snd (env_turn s)) - {p}\<rparr>)"
  by (simp add: proc_wait_def proc_kill_def Let_def)

lemma stop_active:
  "proc s = Some p \<Longrightarrow> p \<in> live s \<Longrightarrow>
   stop s =
     and_then (command [''quit''] s) (\<lambda>u s1.
       (Inr (), (snd (env_turn s1))\<lparr>live := live (snd (env_turn s1)) - {p}, proc := None, sock := False\<rparr>))"
  by (simp add: stop_def poll_is_None_def wait_or_kill and_then_def clean_socket_eq
      split: prod.splits sum.splits)

lemma command_cases:
  "command cmd s = (r, s') \<Longrightarrow>
   (r = Inl ChannelUnavailable \<and> \<not> sock s \<and> s' = s) \<or>
   (sock s \<and> (r = Inl OSError \<or> r = Inl JSONDecodeError \<or> r = Inr ()))"
  by (auto simp: command_def send_recv_def sock_talk_def path_exists_def and_then_def
      ChannelUnavailable_def split: prod.splits answer.splits if_splits)

lemma command_slept: "slept_ms (snd (command cmd s)) = slept_ms s"
  by (auto simp: command_def send_recv_def sock_talk_def sock_open_def path_exists_def
      and_then_def env_turn_def split: prod.splits answer.splits list.splits)

lemma stop_ok_state:
  assumes "fst (stop s) = Inr ()"
  shows "proc (snd (stop s)) = None \<and> \<not> sock (snd (stop s)) \<and>
         (\<forall>p. proc s = Some p \<longrightarrow> p \<notin> live (snd (stop s)))"
proof (cases "active s")
  case False
  then show ?thesis
    by (auto simp: stop_inactive active_def poll_is_None_def)
next
  case True
  then obtain p where p: "proc s = Some p" "p \<in> live s"
    by (auto simp: active_def poll_is_None_def split: option.splits)
  obtain r s1 where c: "command [''quit''] s = (r, s1)" by (cases "command [''quit''] s")
  show ?thesis
    using assms p c by (cases r) (simp_all add: stop_active and_then_def)
qed

lemma stop_error_state:
  assumes "fst (stop s) = Inl e"
  shows "active s \<and> (e = ChannelUnavailable \<or> e = OSError \<or> e = JSONDecodeError) \<and>
         proc (snd (stop s)) = proc s \<and> spawned (snd (stop s)) = spawned s \<and>
         socket_path (snd (stop s)) = socket_path s \<and> live (snd (stop s)) \<subseteq> live s"
proof (cases "active s")
  case False
  then show ?thesis using assms by (simp add: stop_inactive)
next
  case True
  then obtain p where p: "proc s = Some p" "p \<in> live s"
    by (auto simp: active_def poll_is_None_def split: option.splits)
  obtain r s1 where c: "command [''quit''] s = (r, s1)" by (cases "command [''quit''] s")
  have k: "keeps s s1" using command_keeps [of s "[''quit'']"] c by simp
  from command_cases [OF c] show ?thesis
    using assms p c True k by (auto simp: stop_active and_then_def keeps_def)
qed

lemma stop_stuck:
  "proc s = Some p \<Longrightarrow> p \<in> live s \<Longrightarrow> \<not> sock s \<Longrightarrow> stop s = (Inl ChannelUnavailable, s)"
  by (simp add: stop_active command_absent and_then_Inl)

lemma stop_frame:
  "spawned (snd (stop s)) = spawned s \<and> socket_path (snd (stop s)) = socket_path s \<and>
   slept_ms (snd (stop s)) = slept_ms s \<and> live (snd (stop s)) \<subseteq> live s \<and>
   set (tape (snd (stop s))) \<subseteq> set (tape s) \<and>
   peak_live (snd (stop s)) = peak_live s \<and> conns (snd (stop s)) = conns s \<and>
   peak_conns (snd (stop s)) \<le> max (peak_conns s) (conns s + 1)"
proof (cases "active s")
  case False
  then show ?thesis by (simp add: stop_inactive)
next
  case True
  then obtain p where p: "proc s = Some p" "p \<in> live s"
    by (auto simp: active_def poll_is_None_def split: option.splits)
  obtain r s1 where c: "command [''quit''] s = (r, s1)" by (cases "command [''quit''] s")
  have k: "keeps s s1" using command_keeps [of s "[''quit'']"] c by simp
  have k2: "keeps s (snd (env_turn s1))" using keeps_trans [OF k env_turn_keeps] .
  have sl: "slept_ms s1 = slept_ms s"
    using command_slept [of "[''quit'']" s] c by simp
  show ?thesis
    using p c k k2 sl by (cases r) (auto simp: stop_active and_then_def keeps_def env_turn_frame)
qed

lemma stop_one_live: "one_live s \<Longrightarrow> one_live (snd (stop s))"
proof (cases "fst (stop s)")
  case (Inl e)
  assume o: "one_live s"
  from stop_error_state [OF Inl] o show ?thesis by (auto simp: one_live_def)
next
  case (Inr u)
  assume o: "one_live s"
  from Inr have ok: "fst (stop s) = Inr ()" by simp
  from stop_ok_state [OF ok] stop_frame [of s] o show ?thesis
    by (auto simp: one_live_def)
qed

lemma stop_ok_no_live: "one_live s \<Longrightarrow> fst (stop s) = Inr () \<Longrightarrow> live (snd (stop s)) = {}"
  using stop_ok_state [of s] stop_frame [of s] by (auto simp: one_live_def)

lemma start_after_stop:
  "stop s = (Inr (), s1) \<Longrightarrow> binary s1 \<Longrightarrow>
   start media s =
     (case poll_socket 50 (launched media s1) of
        (True, s4) \<Rightarrow> (Inr (), s4)
      | (False, s4) \<Rightarrow> (Inl LaunchTimeout, s4))"
  unfolding LaunchTimeout_def
  by (simp add: start_def and_then_Inr clean_socket_eq popen_def launched_def)

lemma start_no_binary:
  "stop s = (Inr (), s1) \<Longrightarrow> \<not> binary s1 \<Longrightarrow>
   start media s =
     (Inl FileNotFoundError,
      s1\<lparr>sock := False, spawned := spawned s1 @ [mpv_cmd (socket_path s1) media]\<rparr>)"
  by (simp add: start_def and_then_Inr and_then_Inl clean_socket_eq popen_def)

lemma start_stop_fails: "stop s = (Inl e, s1) \<Longrightarrow> start media s = (Inl e, s1)"
  by (simp add: start_def and_then_Inl)

lemma start_snd:
  "fst (stop s) = Inr () \<Longrightarrow> binary (snd (stop s)) \<Longrightarrow>
   snd (start media s) = snd (poll_socket 50 (launched media (snd (stop s))))"
  using start_after_stop [of s "snd (stop s)" media]
  by (cases "stop s") (auto split: prod.splits bool.splits)

lemma poll_socket_never:
  "\<not> sock s \<Longrightarrow> \<forall>m \<in> set (take (n - 1) (tape s)). sock_change m \<noteq> Some True \<Longrightarrow>
   fst (poll_socket n s) = False \<and>
   slept_ms (snd (poll_socket n s)) = slept_ms s + 100 * n \<and>
   \<not> sock (snd (poll_socket (n - 1) s))"
proof (induction n arbitrary: s)
  case 0
  then show ?case by simp
next
  case (Suc n)
  show ?case
  proof (cases n)
    case 0
    then show ?thesis using Suc.prems by (simp add: path_exists_def sleep_def Let_def env_turn_frame)
  next
    case (Suc k)
    have a: "\<not> sock (sleep s)"
      using Suc.prems Suc
      by (cases "tape s") (auto simp: sleep_def env_turn_def Let_def split: option.splits)
    have b: "\<forall>m \<in> set (take (n - 1) (tape (sleep s))). sock_change m \<noteq> Some True"
      using Suc.prems Suc
      by (cases "tape s") (auto simp: sleep_def env_turn_def Let_def)
    have c: "slept_ms (sleep s) = slept_ms s + 100"
      by (simp add: sleep_def Let_def env_turn_frame)
    from Suc.IH [OF a b] c Suc.prems(1) Suc show ?thesis
      by (simp add: path_exists_def)
  qed
qed

lemma poll_socket_survives:
  "p \<in> live s \<Longrightarrow> \<forall>m \<in> set (tape s). p \<notin> set (exits m) \<Longrightarrow> p \<in> live (snd (poll_socket n s))"
proof (induction n arbitrary: s)
  case 0
  then show ?case by simp
next
  case (Suc n)
  have a: "p \<in> live (sleep s)"
    using Suc.prems by (cases "tape s") (auto simp: sleep_def env_turn_def Let_def)
  have b: "\<forall>m \<in> set (tape (sleep s)). p \<notin> set (exits m)"
    using Suc.prems by (cases "tape s") (auto simp: sleep_def env_turn_def Let_def)
  from Suc.IH [OF a b] Suc.prems(1) show ?case by simp
qed

lemma poll_socket_quiet:
  "tape s = [] \<Longrightarrow> \<not> sock s \<Longrightarrow>
   poll_socket n s = (False, s\<lparr>slept_ms := slept_ms s + 100 * n\<rparr>)"
proof (induction n arbitrary: s)
  case 0
  then show ?case by simp
next
  case (Suc n)
  have sl: "sleep s = s\<lparr>slept_ms := slept_ms s + 100\<rparr>"
    using Suc.prems by (simp add: sleep_def env_turn_def Let_def)
  show ?case
    using Suc.prems Suc.IH [of "s\<lparr>slept_ms := slept_ms s + 100\<rparr>"]
    by (simp add: path_exists_def sl add.assoc)
qed

lemma stop_init: "stop (init moves) = (Inr (), init moves)"
  by (simp add: stop_idle init_def)

lemma binary_init: "binary (init moves)"
  by (simp add: init_def)

lemma start_init_stuck: "start media (init []) = (Inl LaunchTimeout, stuck media)"
proof -
  have "poll_socket 50 (launched media (init [])) = (False, stuck media)"
    by (simp add: poll_socket_quiet launched_def init_def stuck_def)
  then show ?thesis
    by (simp add: start_after_stop [OF stop_init binary_init])
qed

lemma start_init_playing: "start media (init (appears # moves)) = (Inr (), playing media moves)"
proof -
  have "poll_socket 50 (launched media (init (appears # moves))) = (True, playing media moves)"
    by (simp add: eval_nat_numeral path_exists_def launched_def init_def playing_def sleep_def
        env_turn_def appears_def mv_def)
  then show ?thesis
    by (simp add: start_after_stop [OF stop_init binary_init])
qed

lemma keeps_one_live: "one_live s \<Longrightarrow> keeps s s' \<Longrightarrow> one_live s'"
  by (auto simp: one_live_def keeps_def)

lemma keeps_settled: "settled s \<Longrightarrow> keeps s s' \<Longrightarrow> settled s'"
  by (auto simp: settled_def one_live_def keeps_def)

lemma one_live_card: "one_live s \<Longrightarrow> card (live s) \<le> 1"
proof -
  assume "one_live s"
  then have "live s \<subseteq> set_option (proc s)"
    by (auto simp: one_live_def)
  moreover have "card (set_option (proc s)) \<le> 1"
    by (cases "proc s") simp_all
  moreover have "finite (set_option (proc s))"
    by (cases "proc s") simp_all
  ultimately show ?thesis
    by (meson card_mono le_trans)
qed

lemma launched_one_live: "live s1 = {} \<Longrightarrow> one_live (launched media s1)"
  by (simp add: one_live_def launched_def)

lemma launched_peak: "live s1 = {} \<Longrightarrow> peak_live (launched media s1) = max (peak_live s1) 1"
  by (simp add: launched_def)

lemma start_ok_facts:
  assumes o: "one_live s" and ok: "fst (stop s) = Inr ()" and b: "binary (snd (stop s))"
  shows "one_live (snd (start media s))"
    and "proc (snd (start media s)) = Some (length (spawned s))"
    and "spawned (snd (start media s)) = spawned s @ [mpv_cmd (socket_path s) media]"
    and "live (snd (start media s)) \<subseteq> {length (spawned s)}"
    and "peak_live (snd (start media s)) = max (peak_live s) 1"
proof -
  let ?L = "launched media (snd (stop s))"
  have e: "live (snd (stop s)) = {}" using o ok by (rule stop_ok_no_live)
  have k: "keeps ?L (snd (start media s))"
    using poll_socket_keeps [of ?L 50] by (simp add: start_snd [OF ok b])
  from keeps_one_live [OF launched_one_live [OF e] k]
  show "one_live (snd (start media s))" .
  from k stop_frame [of s] e
  show "proc (snd (start media s)) = Some (length (spawned s))"
    and "spawned (snd (start media s)) = spawned s @ [mpv_cmd (socket_path s) media]"
    and "live (snd (start media s)) \<subseteq> {length (spawned s)}"
    by (simp_all add: keeps_def launched_def)
  from k stop_frame [of s] launched_peak [OF e, of media]
  show "peak_live (snd (start media s)) = max (peak_live s) 1"
    by (simp add: keeps_def)
qed

lemma start_ok_survives:
  assumes ok: "fst (stop s) = Inr ()" and b: "binary (snd (stop s))"
    and q: "\<forall>m \<in> set (tape s). length (spawned s) \<notin> set (exits m)"
  shows "length (spawned s) \<in> live (snd (start media s))"
proof -
  let ?L = "launched media (snd (stop s))"
  have a: "length (spawned s) \<in> live ?L"
    using stop_frame [of s] by (simp add: launched_def)
  have c: "\<forall>m \<in> set (tape ?L). length (spawned s) \<notin> set (exits m)"
    using q stop_frame [of s] by (auto simp: launched_def)
  from poll_socket_survives [OF a c] show ?thesis
    by (simp add: start_snd [OF ok b])
qed

lemma start_fails_facts:
  assumes "fst (stop s) = Inl e"
  shows "start media s = (Inl e, snd (stop s))"
    and "spawned (snd (start media s)) = spawned s"
    and "proc (snd (start media s)) = proc s"
proof -
  from assms have st: "stop s = (Inl e, snd (stop s))" by (cases "stop s") simp
  from start_stop_fails [OF st] show "start media s = (Inl e, snd (stop s))" .
  then show "spawned (snd (start media s)) = spawned s"
    and "proc (snd (start media s)) = proc s"
    using stop_frame [of s] stop_error_state [OF assms] by simp_all
qed

lemma start_no_binary_facts:
  assumes ok: "fst (stop s) = Inr ()" and b: "\<not> binary (snd (stop s))"
  shows "fst (start media s) = Inl FileNotFoundError"
    and "proc (snd (start media s)) = None"
    and "live (snd (start media s)) = live (snd (stop s))"
    and "slept_ms (snd (start media s)) = slept_ms s"
    and "spawned (snd (start media s)) = spawned s @ [mpv_cmd (socket_path s) media]"
    and "peak_live (snd (start media s)) = peak_live s"
    and "conns (snd (start media s)) = conns s"
    and "peak_conns (snd (start media s)) = peak_conns (snd (stop s))"
proof -
  from ok have st: "stop s = (Inr (), snd (stop s))" by (cases "stop s") simp
  from start_no_binary [OF st b, of media] stop_ok_state [OF ok] stop_frame [of s]
  show "fst (start media s) = Inl FileNotFoundError"
    and "proc (snd (start media s)) = None"
    and "live (snd (start media s)) = live (snd (stop s))"
    and "slept_ms (snd (start media s)) = slept_ms s"
    and "spawned (snd (start media s)) = spawned s @ [mpv_cmd (socket_path s) media]"
    and "peak_live (snd (start media s)) = peak_live s"
    and "conns (snd (start media s)) = conns s"
    and "peak_conns (snd (start media s)) = peak_conns (snd (stop s))"
    by simp_all
qed

lemma start_spawned:
  assumes ok: "fst (stop s) = Inr ()"
  shows "spawned (snd (start media s)) = spawned s @ [mpv_cmd (socket_path s) media]"
proof (cases "binary (snd (stop s))")
  case True
  have "keeps (launched media (snd (stop s))) (snd (start media s))"
    using poll_socket_keeps [of "launched media (snd (stop s))" 50]
    by (simp add: start_snd [OF ok True])
  then show ?thesis
    using stop_frame [of s] by (simp add: keeps_def launched_def)
next
  case False
  from start_no_binary_facts(5) [OF ok False] show ?thesis .
qed

lemma start_one_live: "one_live s \<Longrightarrow> one_live (snd (start media s))"
proof (cases "fst (stop s)")
  case (Inl e)
  assume o: "one_live s"
  from start_fails_facts(1) [OF Inl] stop_one_live [OF o] show ?thesis by simp
next
  case (Inr u)
  assume o: "one_live s"
  from Inr have ok: "fst (stop s) = Inr ()" by simp
  show ?thesis
  proof (cases "binary (snd (stop s))")
    case True
    from start_ok_facts(1) [OF o ok True] show ?thesis .
  next
    case False
    from start_no_binary_facts(2,3) [OF ok False, of media] stop_ok_no_live [OF o ok]
    show ?thesis by (simp add: one_live_def)
  qed
qed

lemma stop_settled: "settled s \<Longrightarrow> settled (snd (stop s))"
  using stop_one_live [of s] stop_frame [of s] by (auto simp: settled_def)

lemma start_settled: "settled s \<Longrightarrow> settled (snd (start media s))"
proof (cases "fst (stop s)")
  case (Inl e)
  assume o: "settled s"
  from start_fails_facts(1) [OF Inl] stop_settled [OF o] show ?thesis by simp
next
  case (Inr u)
  assume o: "settled s"
  then have ol: "one_live s" by (simp add: settled_def)
  from Inr have ok: "fst (stop s) = Inr ()" by simp
  have ss: "settled (snd (stop s))" using o by (rule stop_settled)
  show ?thesis
  proof (cases "binary (snd (stop s))")
    case True
    let ?L = "launched media (snd (stop s))"
    have e: "live (snd (stop s)) = {}" using ol ok by (rule stop_ok_no_live)
    have "settled ?L"
      using ss launched_one_live [OF e, of media] launched_peak [OF e, of media]
      by (simp add: settled_def) (simp add: launched_def)
    moreover have "keeps ?L (snd (start media s))"
      using poll_socket_keeps [of ?L 50] by (simp add: start_snd [OF ok True])
    ultimately show ?thesis by (rule keeps_settled)
  next
    case False
    from start_no_binary_facts [OF ok False, of media] start_one_live [OF ol, of media] o ss
    show ?thesis by (simp add: settled_def)
  qed
qed

lemma do_call_settled: "settled s \<Longrightarrow> settled (do_call str2int c s)"
proof (cases c)
  case (Start media)
  assume "settled s"
  then show ?thesis using Start by (simp add: start_settled)
next
  case Stop
  assume "settled s"
  then show ?thesis using Stop by (simp add: stop_settled)
next
  case Pause
  assume "settled s"
  then show ?thesis using Pause keeps_settled [OF _ pause_keeps] by simp
next
  case (Seek delta)
  assume "settled s"
  then show ?thesis using Seek keeps_settled [OF _ seek_keeps] by simp
next
  case (Volume delta)
  assume "settled s"
  then show ?thesis using Volume keeps_settled [OF _ volume_keeps] by simp
next
  case Status
  assume "settled s"
  then show ?thesis using Status keeps_settled [OF _ status_keeps] by simp
next
  case World
  assume "settled s"
  then show ?thesis using World keeps_settled [OF _ env_turn_keeps] by simp
qed

lemma run_settled: "settled s \<Longrightarrow> settled (run str2int calls s)"
  unfolding run_def by (induction calls arbitrary: s) (simp_all add: do_call_settled)

lemma init_settled: "settled (init moves)"
  by (simp add: settled_def one_live_def init_def)

lemma stays_sock:
  "sock s \<Longrightarrow> sock_change m \<noteq> Some False \<Longrightarrow> sock (after_talk m cmd s)"
  by (cases "sock_change m") (simp_all add: after_move_def after_talk_def)

lemma get_dict:
  "sock s \<Longrightarrow> tape s = m # ms \<Longrightarrow> answer m = Reply (PDict kvs) \<Longrightarrow>
   get prop s = (Inr (data_of kvs), after_talk m [''get_property'', prop] s)"
  by (simp add: get_Reply data_of_def)

lemma status_not_querying:
  "\<not> status_queries s \<Longrightarrow> status str2int s = (Inr [(''running'', PBool False)], s)"
  by (simp add: status_def status_queries_def)

lemma status_querying:
  "status_queries s \<Longrightarrow>
   status str2int s =
     and_then (get ''path'' s) (\<lambda>v1 s1.
     and_then (basename (py_or v1 (PStr [])), s1) (\<lambda>file s1.
     and_then (get ''pause'' s1) (\<lambda>v2 s2.
     and_then (get ''volume'' s2) (\<lambda>v3 s3.
     and_then (py_int str2int (py_or v3 (PInt 0)), s3) (\<lambda>vol s3.
       (Inr [(''running'', PBool True),
             (''file'', PStr file),
             (''paused'', PBool (truthy v2)),
             (''volume'', PInt vol)], s3))))))"
  by (simp add: status_def status_queries_def)

lemma status_replies:
  assumes q: "status_queries s" and s: "sock s"
    and t: "tape s = m1 # m2 # m3 # ms"
    and a1: "answer m1 = Reply (PDict k1)" and a2: "answer m2 = Reply (PDict k2)"
    and a3: "answer m3 = Reply (PDict k3)"
    and c1: "sock_change m1 \<noteq> Some False" and c2: "sock_change m2 \<noteq> Some False"
    and b: "basename (py_or (data_of k1) (PStr [])) = Inr file"
    and i: "py_int str2int (py_or (data_of k3) (PInt 0)) = Inr vol"
  shows "fst (status str2int s) =
           Inr [(''running'', PBool True), (''file'', PStr file),
                (''paused'', PBool (truthy (data_of k2))), (''volume'', PInt vol)]"
proof -
  define s1 where "s1 = after_talk m1 [''get_property'', ''path''] s"
  define s2 where "s2 = after_talk m2 [''get_property'', ''pause''] s1"
  define s3 where "s3 = after_talk m3 [''get_property'', ''volume''] s2"
  have g1: "get ''path'' s = (Inr (data_of k1), s1)"
    using s t a1 by (simp add: get_dict s1_def)
  have s1: "sock s1" "tape s1 = m2 # m3 # ms"
    using s c1 t by (simp_all add: s1_def stays_sock after_move_tape)
  have g2: "get ''pause'' s1 = (Inr (data_of k2), s2)"
    using s1 a2 by (simp add: get_dict s2_def)
  have s2: "sock s2" "tape s2 = m3 # ms"
    using s1 c2 by (simp_all add: s2_def stays_sock after_move_tape)
  have g3: "get ''volume'' s2 = (Inr (data_of k3), s3)"
    using s2 a3 by (simp add: get_dict s3_def)
  show ?thesis
    by (simp add: status_querying [OF q] g1 g2 g3 b i and_then_Inr)
qed

lemma falsy_defaults:
  "\<not> truthy v \<Longrightarrow> basename (py_or v (PStr [])) = Inr [] \<and> py_int str2int (py_or v (PInt 0)) = Inr 0"
  by (simp add: py_or_def basename_str_def)

lemma get_fails:
  "sock s \<Longrightarrow> tape s = m # ms \<Longrightarrow> answer m = ConnError \<Longrightarrow> fst (get prop s) = Inl OSError"
  "sock s \<Longrightarrow> tape s = m # ms \<Longrightarrow> answer m = DecodeError \<Longrightarrow> fst (get prop s) = Inl JSONDecodeError"
  by (simp_all add: get_def send_recv_def sock_talk_def sock_open_def path_exists_def
      env_turn_def and_then_Inl)

lemma playing_dies:
  "snd (env_turn (playing ''/media/movie.mkv'' (dies # moves))) = exited False moves"
  by (simp add: env_turn_def playing_def dies_def mv_def exited_def)

lemma data_of_missing: "map_of kvs ''data'' = None \<Longrightarrow> data_of kvs = PNone"
  by (simp add: data_of_def)

lemma show_text_Reply:
  "sock s \<Longrightarrow> tape s = m # ms \<Longrightarrow> answer m = Reply v \<Longrightarrow>
   show_text txt d s = (Inr (), after_talk m [''show-text'', txt, py_str d] s)"
  by (simp add: show_text_def command_Reply)

lemma py_str_0: "py_str 0 = ''0''"
  by (simp add: py_str_def)

lemma py_str_1000: "py_str 1000 = ''1000''"
  by (simp add: py_str_def)

lemma get_not_dict:
  "sock s \<Longrightarrow> tape s = m # ms \<Longrightarrow> answer m = Reply v \<Longrightarrow> \<forall>kvs. v \<noteq> PDict kvs \<Longrightarrow>
   fst (get name s) = Inl AttributeError"
  by (cases v) (simp_all add: get_Reply)



subsection \<open>Calls running alone and calls running together\<close>























lemma race_two_starts:
  assumes "proc s = None" and "binary s"
  shows "live (snd (snd (interleave f
            [True, True, True, True, False, False, False, False, True, False]
            (Running (start_steps a), Running (start_steps b), s)))) =
         insert (Suc (length (spawned s))) (insert (length (spawned s)) (live s))"
  using assms
  by (simp add: start_steps_def stop_steps_def settle_def active_def clean_socket_eq popen_def)

lemma race_two_exchanges:
  assumes "sock s"
  shows "conns (snd (snd (interleave f [True, False]
            (Running pause_steps, Running (seek_steps delta), s)))) = conns s + 2"
  using assms
  by (simp add: pause_steps_def seek_steps_def settle_def path_exists_def sock_open_def)

subsection \<open>Evaluation in concrete worlds\<close>

lemmas world_defs =
  status_queries_def exited_def init_def gives_def mv_def poll_is_None_def get_def
  send_recv_def sock_talk_def sock_open_def path_exists_def env_turn_def and_then_def
  py_or_def basename_str_def ChannelUnavailable_def data_of_def after_talk_def after_move_def

lemmas run_defs =
  stop_def start_def command_def get_def send_recv_def sock_talk_def sock_open_def
  show_text_def clean_socket_def
  os_remove_def path_exists_def env_turn_def and_then_def proc_wait_def proc_kill_def
  poll_is_None_def active_def popen_def sleep_def
  init_def playing_def stuck_def mv_def bare_reply_def appears_def dies_def quiet_def
  ChannelUnavailable_def LaunchTimeout_def

lemma start_replaces:
  "start ''/media/b.mkv'' (playing ''/media/a.mkv'' [quits, quiet, appears]) = (Inr (), replaced)"
  by (simp add: eval_nat_numeral run_defs quits_def replaced_def insert_commute)


section \<open>The claims\<close>

text \<open>
  C1. The code tests \<^verbatim>\<open>self.proc.poll() is None\<close>, which holds while the process is
  running, where the claim needs the opposite. Right after a successful
  \<^verbatim>\<open>start("/media/movie.mkv")\<close>, with the player alive and ready to answer, \<^verbatim>\<open>status\<close>
  returns \<^verbatim>\<open>{"running": False}\<close> and asks nothing. Once that player has exited, \<^verbatim>\<open>status\<close>
  queries the socket and, if something still answers there, reports \<^verbatim>\<open>running: True\<close>.
\<close>

theorem status_inverted_liveness:
  "start ''/media/movie.mkv'' (init [appears, gives (PStr ''/media/movie.mkv''), gives (PBool False), gives (PInt 100)])
     = (Inr (), playing ''/media/movie.mkv'' [gives (PStr ''/media/movie.mkv''), gives (PBool False), gives (PInt 100)])
   \<and> active (playing ''/media/movie.mkv'' [gives (PStr ''/media/movie.mkv''), gives (PBool False), gives (PInt 100)])
   \<and> fst (status no_str (playing ''/media/movie.mkv'' [gives (PStr ''/media/movie.mkv''), gives (PBool False), gives (PInt 100)]))
     = Inr [(''running'', PBool False)]
   \<and> \<not> active ((playing ''/media/movie.mkv'' [gives (PStr ''/media/movie.mkv''), gives (PBool False), gives (PInt 100)])\<lparr>live := {}\<rparr>)
   \<and> fst (status no_str ((playing ''/media/movie.mkv'' [gives (PStr ''/media/movie.mkv''), gives (PBool False), gives (PInt 100)])\<lparr>live := {}\<rparr>))
     = Inr [(''running'', PBool True), (''file'', PStr ''movie.mkv''), (''paused'', PBool False), (''volume'', PInt 100)]"
  by (simp add: start_init_playing)
    (simp add: status_def run_defs gives_def py_or_def basename_str_def)

text \<open>
  C2, as amended. \<^verbatim>\<open>status\<close> has no handler. When it returns at its first test it cannot
  raise. When it goes on to query \<^verbatim>\<open>path\<close>, \<^verbatim>\<open>pause\<close> and \<^verbatim>\<open>volume\<close>, in this order, the
  first query that raises ends the call with its exception, and so do \<^verbatim>\<open>os.path.basename\<close>
  on a path that is no string and \<^verbatim>\<open>int\<close> on a volume it cannot convert; only when all
  of them return is there a snapshot. A query raises \<open>ChannelUnavailable\<close> when the socket
  file is absent at that moment, \<^verbatim>\<open>OSError\<close> on a failed connection, \<^verbatim>\<open>JSONDecodeError\<close> on
  an undecodable reply and \<^verbatim>\<open>AttributeError\<close> on a reply that is no JSON object. A default
  is used only for a value that is false in Python's sense, as the \<^verbatim>\<open>None\<close> of a missing
  \<^verbatim>\<open>data\<close> is: the empty string, \<^verbatim>\<open>False\<close> and zero.
\<close>

theorem status_propagates_failures:
  "(\<not> status_queries s \<longrightarrow> status str2int s = (Inr [(''running'', PBool False)], s))
   \<and> (status_queries s \<and> fst (get ''path'' s) = Inl e \<longrightarrow>
        status str2int s = (Inl e, snd (get ''path'' s)))
   \<and> (status_queries s \<and> get ''path'' s = (Inr v1, s1) \<and>
       basename (py_or v1 (PStr [])) = Inl e \<longrightarrow>
        status str2int s = (Inl e, s1))
   \<and> (status_queries s \<and> get ''path'' s = (Inr v1, s1) \<and>
       basename (py_or v1 (PStr [])) = Inr base \<and>
       fst (get ''pause'' s1) = Inl e \<longrightarrow>
        status str2int s = (Inl e, snd (get ''pause'' s1)))
   \<and> (status_queries s \<and> get ''path'' s = (Inr v1, s1) \<and>
       basename (py_or v1 (PStr [])) = Inr base \<and>
       get ''pause'' s1 = (Inr v2, s2) \<and>
       fst (get ''volume'' s2) = Inl e \<longrightarrow>
        status str2int s = (Inl e, snd (get ''volume'' s2)))
   \<and> (status_queries s \<and> get ''path'' s = (Inr v1, s1) \<and>
       basename (py_or v1 (PStr [])) = Inr base \<and>
       get ''pause'' s1 = (Inr v2, s2) \<and>
       get ''volume'' s2 = (Inr v3, s3) \<and>
       py_int str2int (py_or v3 (PInt 0)) = Inl e \<longrightarrow>
        status str2int s = (Inl e, s3))
   \<and> (status_queries s \<and> get ''path'' s = (Inr v1, s1) \<and>
       basename (py_or v1 (PStr [])) = Inr base \<and>
       get ''pause'' s1 = (Inr v2, s2) \<and>
       get ''volume'' s2 = (Inr v3, s3) \<and>
       py_int str2int (py_or v3 (PInt 0)) = Inr vol \<longrightarrow>
        status str2int s =
          (Inr [(''running'', PBool True), (''file'', PStr base),
                (''paused'', PBool (truthy v2)), (''volume'', PInt vol)], s3))
   \<and> (\<not> sock s \<longrightarrow> get name s = (Inl ChannelUnavailable, s))
   \<and> (sock s \<and> tape s = m # ms \<and> answer m = ConnError \<longrightarrow>
        fst (get name s) = Inl OSError)
   \<and> (sock s \<and> tape s = m # ms \<and> answer m = DecodeError \<longrightarrow>
        fst (get name s) = Inl JSONDecodeError)
   \<and> (sock s \<and> tape s = m # ms \<and> answer m = Reply v \<and> (\<forall>kvs. v \<noteq> PDict kvs) \<longrightarrow>
        fst (get name s) = Inl AttributeError)
   \<and> (sock s \<and> tape s = m # ms \<and> answer m = Reply (PDict kvs) \<longrightarrow>
        get name s = (Inr (data_of kvs), after_talk m [''get_property'', name] s))
   \<and> (\<not> truthy v \<longrightarrow>
        basename (py_or v (PStr [])) = Inr [] \<and>
        py_int str2int (py_or v (PInt 0)) = Inr 0)"
proof (intro conjI impI)
  assume "\<not> status_queries s"
  then show "status str2int s = (Inr [(''running'', PBool False)], s)"
    by (rule status_not_querying)
next
  assume h: "status_queries s \<and> fst (get ''path'' s) = Inl e"
  then show "status str2int s = (Inl e, snd (get ''path'' s))"
    by (cases "get ''path'' s") (simp add: status_querying and_then_Inl)
next
  assume "status_queries s \<and> get ''path'' s = (Inr v1, s1) \<and>
       basename (py_or v1 (PStr [])) = Inl e"
  then show "status str2int s = (Inl e, s1)"
    by (simp add: status_querying and_then_Inl and_then_Inr)
next
  assume "status_queries s \<and> get ''path'' s = (Inr v1, s1) \<and>
       basename (py_or v1 (PStr [])) = Inr base \<and>
       fst (get ''pause'' s1) = Inl e"
  then show "status str2int s = (Inl e, snd (get ''pause'' s1))"
    by (cases "get ''pause'' s1") (simp add: status_querying and_then_Inl and_then_Inr)
next
  assume "status_queries s \<and> get ''path'' s = (Inr v1, s1) \<and>
       basename (py_or v1 (PStr [])) = Inr base \<and>
       get ''pause'' s1 = (Inr v2, s2) \<and>
       fst (get ''volume'' s2) = Inl e"
  then show "status str2int s = (Inl e, snd (get ''volume'' s2))"
    by (cases "get ''volume'' s2") (simp add: status_querying and_then_Inl and_then_Inr)
next
  assume "status_queries s \<and> get ''path'' s = (Inr v1, s1) \<and>
       basename (py_or v1 (PStr [])) = Inr base \<and>
       get ''pause'' s1 = (Inr v2, s2) \<and>
       get ''volume'' s2 = (Inr v3, s3) \<and>
       py_int str2int (py_or v3 (PInt 0)) = Inl e"
  then show "status str2int s = (Inl e, s3)"
    by (simp add: status_querying and_then_Inl and_then_Inr)
next
  assume "status_queries s \<and> get ''path'' s = (Inr v1, s1) \<and>
       basename (py_or v1 (PStr [])) = Inr base \<and>
       get ''pause'' s1 = (Inr v2, s2) \<and>
       get ''volume'' s2 = (Inr v3, s3) \<and>
       py_int str2int (py_or v3 (PInt 0)) = Inr vol"
  then show "status str2int s =
          (Inr [(''running'', PBool True), (''file'', PStr base),
                (''paused'', PBool (truthy v2)), (''volume'', PInt vol)], s3)"
    by (simp add: status_querying and_then_Inr)
next
  assume "\<not> sock s"
  then show "get name s = (Inl ChannelUnavailable, s)" by (rule get_absent)
next
  assume "sock s \<and> tape s = m # ms \<and> answer m = ConnError"
  then show "fst (get name s) = Inl OSError" by (simp add: get_fails)
next
  assume "sock s \<and> tape s = m # ms \<and> answer m = DecodeError"
  then show "fst (get name s) = Inl JSONDecodeError" by (simp add: get_fails)
next
  assume "sock s \<and> tape s = m # ms \<and> answer m = Reply v \<and> (\<forall>kvs. v \<noteq> PDict kvs)"
  then show "fst (get name s) = Inl AttributeError" by (simp add: get_not_dict)
next
  assume "sock s \<and> tape s = m # ms \<and> answer m = Reply (PDict kvs)"
  then show "get name s = (Inr (data_of kvs), after_talk m [''get_property'', name] s)"
    by (simp add: get_dict)
next
  assume "\<not> truthy v"
  then show "basename (py_or v (PStr [])) = Inr []"
    "py_int str2int (py_or v (PInt 0)) = Inr 0"
    by (simp_all add: falsy_defaults)
qed

theorem status_propagates_failures_witness:
  "status no_str (init []) = (Inr [(''running'', PBool False)], init [])
   \<and> status no_str (exited False []) = (Inl ChannelUnavailable, exited False [])
   \<and> fst (status no_str (exited True [gives (PInt 5)])) = Inl TypeError
   \<and> fst (status no_str (exited True [gives (PStr ''/m/a.mkv''), mv None [] DecodeError])) =
       Inl JSONDecodeError
   \<and> fst (status no_str
         (exited True [gives (PStr ''/m/a.mkv''), gives (PBool False), mv None [] ConnError])) =
       Inl OSError
   \<and> fst (status no_str
         (exited True [gives (PStr ''/m/a.mkv''), gives (PBool False), gives (PList [PInt 1])])) =
       Inl TypeError
   \<and> fst (status no_str
         (exited True [gives (PStr ''/m/a.mkv''), gives (PBool True), gives (PInt 80)])) =
       Inr [(''running'', PBool True), (''file'', PStr ''a.mkv''),
            (''paused'', PBool True), (''volume'', PInt 80)]
   \<and> fst (get ''pause'' (exited True [mv None [] ConnError])) = Inl OSError
   \<and> fst (get ''pause'' (exited True [mv None [] DecodeError])) = Inl JSONDecodeError
   \<and> fst (get ''pause'' (exited True [mv None [] (Reply (PList []))])) = Inl AttributeError
   \<and> fst (get ''pause'' (exited True [gives (PBool True)])) = Inr (PBool True)
   \<and> basename (py_or PNone (PStr [])) = Inr []
   \<and> py_int no_str (py_or PNone (PInt 0)) = Inr 0"
proof -
  let ?p = "gives (PStr ''/m/a.mkv'')"
  let ?S3 = "exited True [gives (PInt 5)]"
  let ?S4 = "exited True [?p, mv None [] DecodeError]"
  let ?S5 = "exited True [?p, gives (PBool False), mv None [] ConnError]"
  let ?S6 = "exited True [?p, gives (PBool False), gives (PList [PInt 1])]"
  let ?S7 = "exited True [?p, gives (PBool True), gives (PInt 80)]"
  note t = status_propagates_failures [where str2int = no_str]
  have 1: "status no_str (init []) = (Inr [(''running'', PBool False)], init [])"
    using t [where s = "init []"] by (simp add: world_defs)
  have 2: "status no_str (exited False []) = (Inl ChannelUnavailable, exited False [])"
    using t [where s = "exited False []" and e = ChannelUnavailable and name = "''path''"]
    by (simp add: world_defs)
  have 3: "fst (status no_str ?S3) = Inl TypeError"
    using t [where s = ?S3 and ?v1.0 = "PInt 5" and ?s1.0 = "snd (get ''path'' ?S3)"
        and e = TypeError]
    by (simp add: world_defs)
  have 4: "fst (status no_str ?S4) = Inl JSONDecodeError"
    using t [where s = ?S4 and ?v1.0 = "PStr ''/m/a.mkv''" and ?s1.0 = "snd (get ''path'' ?S4)"
        and base = "''a.mkv''" and e = JSONDecodeError]
    by (simp add: world_defs)
  have 5: "fst (status no_str ?S5) = Inl OSError"
    using t [where s = ?S5 and ?v1.0 = "PStr ''/m/a.mkv''" and ?s1.0 = "snd (get ''path'' ?S5)"
        and base = "''a.mkv''" and ?v2.0 = "PBool False"
        and ?s2.0 = "snd (get ''pause'' (snd (get ''path'' ?S5)))" and e = OSError]
    by (simp add: world_defs)
  have 6: "fst (status no_str ?S6) = Inl TypeError"
    using t [where s = ?S6 and ?v1.0 = "PStr ''/m/a.mkv''" and ?s1.0 = "snd (get ''path'' ?S6)"
        and base = "''a.mkv''" and ?v2.0 = "PBool False"
        and ?s2.0 = "snd (get ''pause'' (snd (get ''path'' ?S6)))"
        and ?v3.0 = "PList [PInt 1]"
        and ?s3.0 = "snd (get ''volume'' (snd (get ''pause'' (snd (get ''path'' ?S6)))))"
        and e = TypeError]
    by (simp add: world_defs)
  have 7: "fst (status no_str ?S7) =
       Inr [(''running'', PBool True), (''file'', PStr ''a.mkv''),
            (''paused'', PBool True), (''volume'', PInt 80)]"
    using t [where s = ?S7 and ?v1.0 = "PStr ''/m/a.mkv''" and ?s1.0 = "snd (get ''path'' ?S7)"
        and base = "''a.mkv''" and ?v2.0 = "PBool True"
        and ?s2.0 = "snd (get ''pause'' (snd (get ''path'' ?S7)))"
        and ?v3.0 = "PInt 80"
        and ?s3.0 = "snd (get ''volume'' (snd (get ''pause'' (snd (get ''path'' ?S7)))))"
        and vol = 80]
    by (simp add: world_defs)
  have 8: "fst (get ''pause'' (exited True [mv None [] ConnError])) = Inl OSError"
    using t [where s = "exited True [mv None [] ConnError]" and m = "mv None [] ConnError"
        and ms = "[]" and name = "''pause''"]
    by (simp add: exited_def mv_def)
  have 9: "fst (get ''pause'' (exited True [mv None [] DecodeError])) = Inl JSONDecodeError"
    using t [where s = "exited True [mv None [] DecodeError]" and m = "mv None [] DecodeError"
        and ms = "[]" and name = "''pause''"]
    by (simp add: exited_def mv_def)
  have 10: "fst (get ''pause'' (exited True [mv None [] (Reply (PList []))])) = Inl AttributeError"
    using t [where s = "exited True [mv None [] (Reply (PList []))]"
        and m = "mv None [] (Reply (PList []))" and ms = "[]" and v = "PList []"
        and name = "''pause''"]
    by (simp add: exited_def mv_def)
  have 11: "fst (get ''pause'' (exited True [gives (PBool True)])) = Inr (PBool True)"
    using t [where s = "exited True [gives (PBool True)]" and m = "gives (PBool True)"
        and ms = "[]" and kvs = "[(''data'', PBool True), (''error'', PStr ''success'')]"
        and name = "''pause''"]
    by (simp add: exited_def mv_def gives_def data_of_def)
  have 12: "basename (py_or PNone (PStr [])) = Inr []"
    "py_int no_str (py_or PNone (PInt 0)) = Inr 0"
    using t [where v = PNone] by simp_all
  from 1 2 3 4 5 6 7 8 9 10 11 12 show ?thesis by simp
qed

text \<open>
  C2 as stated fails: the player started, then exited and removed its socket; \<^verbatim>\<open>status\<close>
  raises \<open>ChannelUnavailable\<close>.
\<close>

theorem status_raises_counterexample:
  "start ''/media/movie.mkv'' (init [appears, dies]) = (Inr (), playing ''/media/movie.mkv'' [dies]) \<and>
   snd (env_turn (playing ''/media/movie.mkv'' [dies])) = exited False [] \<and>
   status no_str (exited False []) = (Inl ChannelUnavailable, exited False [])"
  by (simp add: start_init_playing playing_dies)
    (simp add: status_def get_absent and_then_Inl exited_def poll_is_None_def)

text \<open>
  C3, as amended. \<^verbatim>\<open>stop\<close> does not catch what the quit command raises. It returns when
  no session is active and when the quit exchange is answered; then no handle is tracked,
  no socket file is left and the process that was tracked has exited or was killed. With
  an active session and no socket file it raises \<open>ChannelUnavailable\<close> and changes nothing;
  a failed connection or an undecodable reply propagates as well. Whenever it raises, the
  session was active and the handle is still tracked.
\<close>

theorem stop_outcomes:
  "(\<not> active s \<longrightarrow> fst (stop s) = Inr ())
   \<and> (active s \<and> \<not> sock s \<longrightarrow> stop s = (Inl ChannelUnavailable, s))
   \<and> (active s \<and> sock s \<and> tape s = m # ms \<and> answer m = Reply v \<longrightarrow>
        fst (stop s) = Inr () \<and> sent (snd (stop s)) = sent s @ [[''quit'']])
   \<and> (active s \<and> sock s \<and> tape s = m # ms \<and> answer m = ConnError \<longrightarrow>
        fst (stop s) = Inl OSError)
   \<and> (active s \<and> sock s \<and> tape s = m # ms \<and> answer m = DecodeError \<longrightarrow>
        fst (stop s) = Inl JSONDecodeError)
   \<and> (fst (stop s) = Inr () \<longrightarrow>
        proc (snd (stop s)) = None \<and> \<not> sock (snd (stop s)) \<and>
        (\<forall>p. proc s = Some p \<longrightarrow> p \<notin> live (snd (stop s))))
   \<and> (fst (stop s) = Inl e \<longrightarrow>
        active s \<and> (e = ChannelUnavailable \<or> e = OSError \<or> e = JSONDecodeError) \<and>
        proc (snd (stop s)) = proc s)"
proof (intro conjI impI)
  assume "\<not> active s"
  then show "fst (stop s) = Inr ()" by (simp add: stop_inactive)
next
  assume "active s \<and> \<not> sock s"
  then show "stop s = (Inl ChannelUnavailable, s)"
    by (auto simp: active_def poll_is_None_def stop_active command_absent and_then_Inl
        split: option.splits)
next
  assume h: "active s \<and> sock s \<and> tape s = m # ms \<and> answer m = Reply v"
  then obtain p where p: "proc s = Some p" "p \<in> live s"
    by (auto simp: active_def poll_is_None_def split: option.splits)
  from h p show "fst (stop s) = Inr ()"
    by (simp add: stop_active command_Reply and_then_Inr)
  from h p show "sent (snd (stop s)) = sent s @ [[''quit'']]"
    by (simp add: stop_active command_Reply and_then_Inr env_turn_frame after_talk_sent)
next
  assume h: "active s \<and> sock s \<and> tape s = m # ms \<and> answer m = ConnError"
  then obtain p where p: "proc s = Some p" "p \<in> live s"
    by (auto simp: active_def poll_is_None_def split: option.splits)
  from h p show "fst (stop s) = Inl OSError"
    by (simp add: stop_active command_def send_recv_def sock_talk_def sock_open_def
        path_exists_def env_turn_def and_then_Inl)
next
  assume h: "active s \<and> sock s \<and> tape s = m # ms \<and> answer m = DecodeError"
  then obtain p where p: "proc s = Some p" "p \<in> live s"
    by (auto simp: active_def poll_is_None_def split: option.splits)
  from h p show "fst (stop s) = Inl JSONDecodeError"
    by (simp add: stop_active command_def send_recv_def sock_talk_def sock_open_def
        path_exists_def env_turn_def and_then_Inl)
next
  assume "fst (stop s) = Inr ()"
  from stop_ok_state [OF this]
  show "proc (snd (stop s)) = None" "\<not> sock (snd (stop s))"
    "\<forall>p. proc s = Some p \<longrightarrow> p \<notin> live (snd (stop s))"
    by simp_all
next
  assume "fst (stop s) = Inl e"
  from stop_error_state [OF this]
  show "active s" "e = ChannelUnavailable \<or> e = OSError \<or> e = JSONDecodeError"
    "proc (snd (stop s)) = proc s"
    by simp_all
qed

theorem stop_outcomes_witness:
  "\<not> active (init []) \<and> fst (stop (init [])) = Inr ()
   \<and> active (stuck ''a'') \<and> \<not> sock (stuck ''a'') \<and>
     stop (stuck ''a'') = (Inl ChannelUnavailable, stuck ''a'') \<and>
     proc (snd (stop (stuck ''a''))) = proc (stuck ''a'')
   \<and> active (playing ''a'' [bare_reply]) \<and> sock (playing ''a'' [bare_reply]) \<and>
     fst (stop (playing ''a'' [bare_reply])) = Inr () \<and>
     sent (snd (stop (playing ''a'' [bare_reply]))) = [[''quit'']] \<and>
     proc (snd (stop (playing ''a'' [bare_reply]))) = None \<and>
     \<not> sock (snd (stop (playing ''a'' [bare_reply]))) \<and>
     0 \<notin> live (snd (stop (playing ''a'' [bare_reply])))
   \<and> fst (stop (playing ''a'' [mv None [] ConnError])) = Inl OSError
   \<and> fst (stop (playing ''a'' [mv None [] DecodeError])) = Inl JSONDecodeError"
  using stop_outcomes [where s = "init []"]
    stop_outcomes [where s = "stuck ''a''" and e = ChannelUnavailable]
    stop_outcomes [where s = "playing ''a'' [bare_reply]" and m = bare_reply and ms = "[]"
      and v = "PDict [(''error'', PStr ''success'')]"]
    stop_outcomes [where s = "playing ''a'' [mv None [] ConnError]"
      and m = "mv None [] ConnError" and ms = "[]"]
    stop_outcomes [where s = "playing ''a'' [mv None [] DecodeError]"
      and m = "mv None [] DecodeError" and ms = "[]"]
  by (simp add: run_defs)

text \<open>
  C3 as stated fails: after a \<^verbatim>\<open>start\<close> that timed out, the process is running and there
  is no socket file; \<^verbatim>\<open>stop\<close> raises and the process stays tracked and alive.
\<close>

theorem stop_raises_counterexample:
  "active (stuck ''/media/movie.mkv'') \<and>
   stop (stuck ''/media/movie.mkv'') = (Inl ChannelUnavailable, stuck ''/media/movie.mkv'') \<and>
   proc (snd (stop (stuck ''/media/movie.mkv''))) = Some 0 \<and>
   0 \<in> live (snd (stop (stuck ''/media/movie.mkv'')))"
  by (simp add: stuck_def active_def poll_is_None_def stop_active command_absent and_then_Inl)

text \<open>
  C4, as amended. When \<^verbatim>\<open>stop\<close> has returned, \<^verbatim>\<open>Popen\<close> has found the executable and the
  socket file does not appear during the first 49 sleeps, all 50 checks fail: \<^verbatim>\<open>start\<close>
  has slept 50 times 100 ms, raises \<open>LaunchTimeout\<close>, and the controller tracks the process
  it has just launched. As long as that process is running and the socket file is still
  absent, a following \<^verbatim>\<open>stop\<close> or \<^verbatim>\<open>start\<close> raises \<open>ChannelUnavailable\<close> and changes
  nothing. When \<^verbatim>\<open>Popen\<close> does not find the executable, \<^verbatim>\<open>start\<close> raises its
  \<^verbatim>\<open>FileNotFoundError\<close> without sleeping and tracks nothing.
\<close>

theorem start_timeout:
  "(fst (stop s) = Inr () \<and> binary (snd (stop s)) \<and>
    (\<forall>m \<in> set (take 49 (tape (snd (stop s)))). sock_change m \<noteq> Some True) \<longrightarrow>
      fst (start media s) = Inl LaunchTimeout \<and>
      slept_ms (snd (start media s)) = slept_ms s + 5000 \<and>
      proc (snd (start media s)) = Some (length (spawned s)) \<and>
      spawned (snd (start media s)) = spawned s @ [mpv_cmd (socket_path s) media] \<and>
      (length (spawned s) \<in> live (snd (start media s)) \<and> \<not> sock (snd (start media s)) \<longrightarrow>
         stop (snd (start media s)) = (Inl ChannelUnavailable, snd (start media s)) \<and>
         start other (snd (start media s)) = (Inl ChannelUnavailable, snd (start media s))))
   \<and> (fst (stop s) = Inr () \<and> \<not> binary (snd (stop s)) \<longrightarrow>
      fst (start media s) = Inl FileNotFoundError \<and>
      proc (snd (start media s)) = None \<and>
      slept_ms (snd (start media s)) = slept_ms s)"
proof (intro conjI impI)
  assume h: "fst (stop s) = Inr () \<and> binary (snd (stop s)) \<and>
    (\<forall>m \<in> set (take 49 (tape (snd (stop s)))). sock_change m \<noteq> Some True)"
  let ?L = "launched media (snd (stop s))"
  let ?s' = "snd (start media s)"
  from h have st: "stop s = (Inr (), snd (stop s))" by (cases "stop s") simp
  from h have bin: "binary (snd (stop s))" by simp
  have a: "\<not> sock ?L" by (simp add: launched_def)
  have b: "\<forall>m \<in> set (take (50 - 1) (tape ?L)). sock_change m \<noteq> Some True"
    using h by (simp add: launched_def)
  have p: "fst (poll_socket 50 ?L) = False"
    and sl: "slept_ms (snd (poll_socket 50 ?L)) = slept_ms ?L + 100 * 50"
    using poll_socket_never [OF a b] by simp_all
  have k: "keeps ?L (snd (poll_socket 50 ?L))" by (rule poll_socket_keeps)
  have r: "start media s = (Inl LaunchTimeout, snd (poll_socket 50 ?L))"
    using p by (cases "poll_socket 50 ?L") (simp add: start_after_stop [OF st bin])
  from r show "fst (start media s) = Inl LaunchTimeout" by simp
  from r sl stop_frame [of s]
  show "slept_ms ?s' = slept_ms s + 5000" by (simp add: launched_def)
  from r k stop_frame [of s]
  show pr: "proc ?s' = Some (length (spawned s))"
    and "spawned ?s' = spawned s @ [mpv_cmd (socket_path s) media]"
    by (simp_all add: keeps_def launched_def)
  {
    assume g: "length (spawned s) \<in> live ?s' \<and> \<not> sock ?s'"
    with pr have x: "stop ?s' = (Inl ChannelUnavailable, ?s')"
      by (simp add: stop_stuck)
    then show "stop ?s' = (Inl ChannelUnavailable, ?s')" .
    from x show "start other ?s' = (Inl ChannelUnavailable, ?s')"
      by (rule start_stop_fails)
  }
next
  assume h: "fst (stop s) = Inr () \<and> \<not> binary (snd (stop s))"
  then have ok: "fst (stop s) = Inr ()" and b: "\<not> binary (snd (stop s))" by simp_all
  from start_no_binary_facts(1,2,4) [OF ok b]
  show "fst (start media s) = Inl FileNotFoundError"
    "proc (snd (start media s)) = None"
    "slept_ms (snd (start media s)) = slept_ms s" .
qed

theorem start_timeout_witness:
  "fst (stop (init [quiet])) = Inr () \<and> binary (snd (stop (init [quiet]))) \<and>
   fst (start ''/media/movie.mkv'' (init [quiet])) = Inl LaunchTimeout \<and>
   slept_ms (snd (start ''/media/movie.mkv'' (init [quiet]))) = 5000 \<and>
   proc (snd (start ''/media/movie.mkv'' (init [quiet]))) = Some 0 \<and>
   spawned (snd (start ''/media/movie.mkv'' (init [quiet]))) =
     [mpv_cmd MPV_SOCKET ''/media/movie.mkv''] \<and>
   0 \<in> live (snd (start ''/media/movie.mkv'' (init [quiet]))) \<and>
   \<not> sock (snd (start ''/media/movie.mkv'' (init [quiet]))) \<and>
   fst (stop (snd (start ''/media/movie.mkv'' (init [quiet])))) = Inl ChannelUnavailable \<and>
   fst (start ''/media/other.mkv'' (snd (start ''/media/movie.mkv'' (init [quiet])))) =
     Inl ChannelUnavailable \<and>
   fst (stop (no_mpv [])) = Inr () \<and> \<not> binary (snd (stop (no_mpv []))) \<and>
   fst (start ''/media/movie.mkv'' (no_mpv [])) = Inl FileNotFoundError \<and>
   proc (snd (start ''/media/movie.mkv'' (no_mpv []))) = None \<and>
   slept_ms (snd (start ''/media/movie.mkv'' (no_mpv []))) = 0"
proof -
  have h1: "stop (init [quiet]) = (Inr (), init [quiet])" by (rule stop_init)
  have h2: "\<forall>m \<in> set (take 49 (tape (init [quiet]))). sock_change m \<noteq> Some True"
    by (simp add: init_def quiet_def)
  have h3: "0 \<in> live (snd (start ''/media/movie.mkv'' (init [quiet])))"
    using start_ok_survives [where s = "init [quiet]" and media = "''/media/movie.mkv''"]
    by (simp add: h1 binary_init) (simp add: init_def quiet_def)
  have h4: "\<not> sock (snd (start ''/media/movie.mkv'' (init [quiet])))"
    using poll_socket_never [where s = "launched ''/media/movie.mkv'' (init [quiet])" and n = 51]
    by (simp add: start_snd h1 binary_init) (simp add: launched_def init_def quiet_def)
  have h5: "stop (no_mpv []) = (Inr (), no_mpv [])"
    by (simp add: stop_idle no_mpv_def init_def)
  have h6: "\<not> binary (no_mpv [])" by (simp add: no_mpv_def)
  show ?thesis
    using start_timeout [where s = "init [quiet]" and media = "''/media/movie.mkv''"
        and other = "''/media/other.mkv''"]
      start_timeout [where s = "no_mpv []" and media = "''/media/movie.mkv''"]
      h1 h2 h3 h4 h5 h6
    by (simp add: binary_init) (simp add: init_def no_mpv_def)
qed

text \<open>
  C4 as stated fails: after the timeout the handle of the new process is kept and the
  process is alive; the next \<^verbatim>\<open>start\<close> raises \<open>ChannelUnavailable\<close> from its \<^verbatim>\<open>stop\<close> step
  and launches nothing, which a fresh controller would not do.
\<close>

theorem start_timeout_keeps_handle_counterexample:
  "fst (start ''/media/movie.mkv'' (init [])) = Inl LaunchTimeout \<and>
   proc (snd (start ''/media/movie.mkv'' (init []))) = Some 0 \<and>
   0 \<in> live (snd (start ''/media/movie.mkv'' (init []))) \<and>
   fst (start ''/media/movie.mkv'' (snd (start ''/media/movie.mkv'' (init [])))) = Inl ChannelUnavailable \<and>
   spawned (snd (start ''/media/movie.mkv'' (snd (start ''/media/movie.mkv'' (init []))))) =
     [mpv_cmd MPV_SOCKET ''/media/movie.mkv'']"
proof -
  have "stop (stuck ''/media/movie.mkv'') = (Inl ChannelUnavailable, stuck ''/media/movie.mkv'')"
    by (simp add: stuck_def stop_active command_absent and_then_Inl)
  then show ?thesis
    by (simp add: start_init_stuck start_stop_fails) (simp add: stuck_def)
qed

text \<open>
  C5, as amended. Calls that follow one another: in every state reached from a new
  controller by any calls and any moves of the world, a process that has not exited is the
  tracked one, never were two processes alive at once, no socket is open between two
  calls and never were two open at once. For a \<^verbatim>\<open>start\<close> in such a state: when its
  \<^verbatim>\<open>stop\<close> step returns and the executable is found, no process is alive at the moment the
  new one is launched; the new one is tracked, it is the only one that can be alive
  afterwards, and it is alive unless it exits by itself. When the executable is not
  found, \<^verbatim>\<open>start\<close> raises and no process is alive. When the \<^verbatim>\<open>stop\<close> step raises, \<^verbatim>\<open>start\<close>
  raises the same error, launches nothing and keeps the old handle. Calls that overlap,
  which nothing in the code prevents: two \<^verbatim>\<open>start\<close> calls on an idle controller that both
  pass their \<^verbatim>\<open>stop\<close> step before either launches leave two processes alive, and two
  commands that both open their socket have two connections open.
\<close>

theorem at_most_one_player:
  "one_live (run str2int calls (init moves))
   \<and> card (live (run str2int calls (init moves))) \<le> 1
   \<and> peak_live (run str2int calls (init moves)) \<le> 1
   \<and> conns (run str2int calls (init moves)) = 0
   \<and> peak_conns (run str2int calls (init moves)) \<le> 1
   \<and> (settled s \<longrightarrow> settled (run str2int calls s))
   \<and> (one_live s \<and> fst (stop s) = Inr () \<and> binary (snd (stop s)) \<longrightarrow>
        live (snd (stop s)) = {} \<and>
        proc (snd (start b s)) = Some (length (spawned s)) \<and>
        spawned (snd (start b s)) = spawned s @ [mpv_cmd (socket_path s) b] \<and>
        live (snd (start b s)) \<subseteq> {length (spawned s)})
   \<and> (one_live s \<and> fst (stop s) = Inr () \<and> binary (snd (stop s)) \<and>
       (\<forall>m \<in> set (tape s). length (spawned s) \<notin> set (exits m)) \<longrightarrow>
        live (snd (start b s)) = {length (spawned s)})
   \<and> (one_live s \<and> fst (stop s) = Inr () \<and> \<not> binary (snd (stop s)) \<longrightarrow>
        fst (start b s) = Inl FileNotFoundError \<and>
        proc (snd (start b s)) = None \<and>
        live (snd (start b s)) = {})
   \<and> (fst (stop s) = Inl e \<longrightarrow>
        start b s = (Inl e, snd (stop s)) \<and>
        spawned (snd (start b s)) = spawned s \<and>
        proc (snd (start b s)) = proc s)
   \<and> (proc s = None \<and> binary s \<longrightarrow>
        live (snd (snd (interleave str2int
          [True, True, True, True, False, False, False, False, True, False]
          (Running (start_steps a), Running (start_steps b), s)))) =
        insert (Suc (length (spawned s))) (insert (length (spawned s)) (live s)))
   \<and> (sock s \<longrightarrow>
        conns (snd (snd (interleave str2int [True, False]
          (Running pause_steps, Running (seek_steps delta), s)))) = conns s + 2)"
proof (intro conjI impI)
  have r: "settled (run str2int calls (init moves))"
    by (rule run_settled [OF init_settled])
  then show "one_live (run str2int calls (init moves))"
    "peak_live (run str2int calls (init moves)) \<le> 1"
    "conns (run str2int calls (init moves)) = 0"
    "peak_conns (run str2int calls (init moves)) \<le> 1"
    by (simp_all add: settled_def)
  from r have "one_live (run str2int calls (init moves))" by (simp add: settled_def)
  then show "card (live (run str2int calls (init moves))) \<le> 1" by (rule one_live_card)
next
  assume "settled s"
  then show "settled (run str2int calls s)" by (rule run_settled)
next
  assume h: "one_live s \<and> fst (stop s) = Inr () \<and> binary (snd (stop s))"
  then have o: "one_live s" and ok: "fst (stop s) = Inr ()" and bin: "binary (snd (stop s))"
    by simp_all
  from o ok show "live (snd (stop s)) = {}" by (rule stop_ok_no_live)
  from start_ok_facts(2-4) [OF o ok bin]
  show "proc (snd (start b s)) = Some (length (spawned s))"
    "spawned (snd (start b s)) = spawned s @ [mpv_cmd (socket_path s) b]"
    "live (snd (start b s)) \<subseteq> {length (spawned s)}" .
next
  assume h: "one_live s \<and> fst (stop s) = Inr () \<and> binary (snd (stop s)) \<and>
       (\<forall>m \<in> set (tape s). length (spawned s) \<notin> set (exits m))"
  then have o: "one_live s" and ok: "fst (stop s) = Inr ()" and bin: "binary (snd (stop s))"
    and q: "\<forall>m \<in> set (tape s). length (spawned s) \<notin> set (exits m)" by simp_all
  from start_ok_facts(4) [OF o ok bin] start_ok_survives [OF ok bin q]
  show "live (snd (start b s)) = {length (spawned s)}" by auto
next
  assume h: "one_live s \<and> fst (stop s) = Inr () \<and> \<not> binary (snd (stop s))"
  then have o: "one_live s" and ok: "fst (stop s) = Inr ()" and bin: "\<not> binary (snd (stop s))"
    by simp_all
  from start_no_binary_facts(1-3) [OF ok bin] stop_ok_no_live [OF o ok]
  show "fst (start b s) = Inl FileNotFoundError" "proc (snd (start b s)) = None"
    "live (snd (start b s)) = {}"
    by simp_all
next
  assume f: "fst (stop s) = Inl e"
  from start_fails_facts [OF f]
  show "start b s = (Inl e, snd (stop s))" "spawned (snd (start b s)) = spawned s"
    "proc (snd (start b s)) = proc s" .
next
  assume "proc s = None \<and> binary s"
  then have i: "proc s = None" and bin: "binary s" by simp_all
  from race_two_starts [OF i bin]
  show "live (snd (snd (interleave str2int
          [True, True, True, True, False, False, False, False, True, False]
          (Running (start_steps a), Running (start_steps b), s)))) =
        insert (Suc (length (spawned s))) (insert (length (spawned s)) (live s))" .
next
  assume "sock s"
  then show "conns (snd (snd (interleave str2int [True, False]
          (Running pause_steps, Running (seek_steps delta), s)))) = conns s + 2"
    by (rule race_two_exchanges)
qed

theorem at_most_one_player_witness:
  "run no_str [Start ''/media/a.mkv'', World, Start ''/media/b.mkv'']
     (init [appears, quiet, quits, quiet, appears]) = replaced
   \<and> card (live replaced) \<le> 1 \<and> peak_live replaced \<le> 1
   \<and> conns replaced = 0 \<and> peak_conns replaced \<le> 1
   \<and> settled (init []) \<and> settled (run no_str [Status, Pause] (init []))
   \<and> one_live (playing ''/media/a.mkv'' [quits, quiet, appears])
   \<and> fst (stop (playing ''/media/a.mkv'' [quits, quiet, appears])) = Inr ()
   \<and> proc replaced = Some 1
   \<and> live replaced = {1}
   \<and> fst (start ''/media/b.mkv'' (no_mpv [])) = Inl FileNotFoundError
   \<and> proc (snd (start ''/media/b.mkv'' (no_mpv []))) = None
   \<and> fst (stop (stuck ''/media/a.mkv'')) = Inl ChannelUnavailable
   \<and> start ''/media/b.mkv'' (stuck ''/media/a.mkv'') = (Inl ChannelUnavailable, stuck ''/media/a.mkv'')
   \<and> live (snd (snd (interleave no_str
          [True, True, True, True, False, False, False, False, True, False]
          (Running (start_steps ''/media/a.mkv''), Running (start_steps ''/media/b.mkv''),
           init [])))) = {0, 1}
   \<and> conns (snd (snd (interleave no_str [True, False]
          (Running pause_steps, Running (seek_steps 10), playing ''/media/a.mkv'' [])))) = 2"
proof -
  let ?p = "playing ''/media/a.mkv'' [quits, quiet, appears]"
  have r: "run no_str [Start ''/media/a.mkv'', World, Start ''/media/b.mkv'']
     (init [appears, quiet, quits, quiet, appears]) = replaced"
  proof -
    have w: "snd (env_turn (playing ''/media/a.mkv'' [quiet, quits, quiet, appears])) = ?p"
      by (simp add: env_turn_def playing_def quiet_def)
    show ?thesis
      by (simp add: run_def start_init_playing w start_replaces)
  qed
  have o: "one_live ?p" by (simp add: one_live_def playing_def)
  have ok: "fst (stop ?p) = Inr ()" "binary (snd (stop ?p))"
    by (simp_all add: run_defs quits_def)
  have q: "\<forall>m \<in> set (tape ?p). length (spawned ?p) \<notin> set (exits m)"
    by (simp add: run_defs quits_def)
  have f: "stop (stuck ''/media/a.mkv'') = (Inl ChannelUnavailable, stuck ''/media/a.mkv'')"
    by (simp add: stuck_def stop_stuck)
  have n: "one_live (no_mpv [])" "stop (no_mpv []) = (Inr (), no_mpv [])" "\<not> binary (no_mpv [])"
    by (simp_all add: one_live_def no_mpv_def init_def stop_idle)
  have i: "settled (init [])" "proc (init []) = None" "binary (init [])" "live (init []) = {}"
    "spawned (init []) = []"
    by (simp_all add: init_settled) (simp_all add: init_def)
  have pl: "sock (playing ''/media/a.mkv'' [])" "conns (playing ''/media/a.mkv'' []) = 0"
    by (simp_all add: playing_def)
  note t = at_most_one_player [where str2int = no_str]
  show ?thesis
    using t [where s = ?p and b = "''/media/b.mkv''"
        and calls = "[Start ''/media/a.mkv'', World, Start ''/media/b.mkv'']"
        and moves = "[appears, quiet, quits, quiet, appears]"]
      t [where s = "stuck ''/media/a.mkv''" and b = "''/media/b.mkv''"
        and e = ChannelUnavailable]
      t [where s = "no_mpv []" and b = "''/media/b.mkv''"]
      t [where s = "init []" and a = "''/media/a.mkv''" and b = "''/media/b.mkv''"
        and calls = "[Status, Pause]"]
      t [where s = "playing ''/media/a.mkv'' []" and delta = 10]
      r o ok q f n i pl start_replaces
    by (simp add: insert_commute) (simp add: playing_def replaced_def)
qed

text \<open>
  C5 as stated fails, in two ways. One call after the other: the first player never
  creates its socket, so \<^verbatim>\<open>start(A)\<close> times out and keeps its process; \<^verbatim>\<open>start(B)\<close> then
  raises from its \<^verbatim>\<open>stop\<close> step, and afterwards the one live process plays A and B was never
  launched. Two calls at once: both \<^verbatim>\<open>start\<close> calls get through \<^verbatim>\<open>stop\<close> before either has
  launched, and two processes are alive; two commands both open their socket, and two
  connections are open.
\<close>

theorem start_twice_counterexample:
  "live (run no_str [Start ''/media/a.mkv'', Start ''/media/b.mkv''] (init [])) = {0} \<and>
   spawned (run no_str [Start ''/media/a.mkv'', Start ''/media/b.mkv''] (init [])) =
     [mpv_cmd MPV_SOCKET ''/media/a.mkv''] \<and>
   fst (start ''/media/b.mkv'' (snd (start ''/media/a.mkv'' (init [])))) = Inl ChannelUnavailable \<and>
   live (snd (snd (interleave no_str
          [True, True, True, True, False, False, False, False, True, False]
          (Running (start_steps ''/media/a.mkv''), Running (start_steps ''/media/b.mkv''),
           init [])))) = {0, 1} \<and>
   conns (snd (snd (interleave no_str [True, False]
          (Running pause_steps, Running (seek_steps 10), playing ''/media/a.mkv'' [])))) = 2"
proof -
  have 1: "stop (stuck ''/media/a.mkv'') = (Inl ChannelUnavailable, stuck ''/media/a.mkv'')"
    by (simp add: stuck_def stop_stuck)
  have 2: "live (snd (snd (interleave no_str
          [True, True, True, True, False, False, False, False, True, False]
          (Running (start_steps ''/media/a.mkv''), Running (start_steps ''/media/b.mkv''),
           init [])))) = {0, 1}"
    by (subst race_two_starts) (auto simp: init_def)
  have 3: "conns (snd (snd (interleave no_str [True, False]
          (Running pause_steps, Running (seek_steps 10), playing ''/media/a.mkv'' [])))) = 2"
    by (subst race_two_exchanges) (simp_all add: playing_def)
  show ?thesis
    using 1 2 3
    by (simp add: run_def start_init_stuck start_stop_fails) (simp add: stuck_def)
qed

text \<open>
  C6, as amended. While no session is active (no process tracked, or the tracked one has
  exited), \<^verbatim>\<open>stop\<close> never raises, sends nothing, launches and ends no process, and leaves
  the session inactive; all it does is to clear the handle and to remove the socket file
  if there is one. So it leaves the controller object unchanged exactly when no handle was
  tracked, and a second call changes nothing at all. Any number of such calls in a row,
  the world moving in between, all return.
\<close>

theorem stop_without_session:
  "(\<not> active s \<longrightarrow>
      stop s = (Inr (), s\<lparr>proc := None, sock := False\<rparr>) \<and>
      fst (stop s) = Inr () \<and>
      \<not> active (snd (stop s)) \<and>
      proc (snd (stop s)) = None \<and>
      socket_path (snd (stop s)) = socket_path s \<and>
      live (snd (stop s)) = live s \<and>
      spawned (snd (stop s)) = spawned s \<and>
      sent (snd (stop s)) = sent s \<and>
      tape (snd (stop s)) = tape s \<and>
      stop (snd (stop s)) = (Inr (), snd (stop s)) \<and>
      fst (stops n s) = Inr () \<and>
      \<not> active (snd (stops n s)))
   \<and> (proc s = None \<longrightarrow>
      stop s = (Inr (), s\<lparr>sock := False\<rparr>) \<and>
      stop (snd (stop s)) = stop s \<and>
      proc (snd (stops n s)) = None)"
proof (intro conjI impI)
  assume a: "\<not> active s"
  then show "stop s = (Inr (), s\<lparr>proc := None, sock := False\<rparr>)" by (rule stop_inactive)
  from a show "fst (stop s) = Inr ()" "proc (snd (stop s)) = None"
    "socket_path (snd (stop s)) = socket_path s" "live (snd (stop s)) = live s"
    "spawned (snd (stop s)) = spawned s" "sent (snd (stop s)) = sent s"
    "tape (snd (stop s)) = tape s"
    by (simp_all add: stop_inactive)
  from a show "\<not> active (snd (stop s))" by (simp add: stop_inactive active_def)
  from a show "stop (snd (stop s)) = (Inr (), snd (stop s))"
    by (simp add: stop_inactive stop_idle)
  from a show "fst (stops n s) = Inr ()" "\<not> active (snd (stops n s))"
    by (simp_all add: stops_inactive)
next
  assume i: "proc s = None"
  then show "stop s = (Inr (), s\<lparr>sock := False\<rparr>)" by (rule stop_idle)
  from i show "stop (snd (stop s)) = stop s" by (simp add: stop_idle)
  from i show "proc (snd (stops n s)) = None" by (rule stops_idle)
qed

theorem stop_without_session_witness:
  "\<not> active (init [appears]) \<and> proc (init [appears]) = None \<and>
   stop (init [appears]) = (Inr (), init [appears]) \<and>
   fst (stops 3 (init [appears])) = Inr () \<and>
   proc (snd (stops 3 (init [appears]))) = None \<and>
   \<not> active (exited True []) \<and>
   fst (stop (exited True [])) = Inr () \<and>
   proc (snd (stop (exited True []))) = None \<and>
   stop (snd (stop (exited True []))) = (Inr (), snd (stop (exited True [])))"
proof -
  have a1: "\<not> active (init [appears])" and a2: "proc (init [appears]) = None"
    by (simp_all add: init_def active_def)
  have a3: "\<not> active (exited True [])"
    by (simp add: active_def exited_def poll_is_None_def)
  from stop_without_session [where s = "init [appears]" and n = 3] a1 a2
  have p1: "fst (stops 3 (init [appears])) = Inr ()"
    and p2: "proc (snd (stops 3 (init [appears]))) = None"
    by blast+
  from stop_without_session [where s = "exited True []" and n = 1] a3
  have p3: "fst (stop (exited True [])) = Inr ()"
    and p4: "proc (snd (stop (exited True []))) = None"
    and p5: "stop (snd (stop (exited True []))) = (Inr (), snd (stop (exited True [])))"
    by blast+
  show ?thesis
    using a1 a2 a3 p1 p2 p3 p4 p5 by (simp add: stop_init)
qed

text \<open>
  C6 as stated fails: the player has exited on its own, so no session is active, but its
  handle is still tracked and its socket file is still there. \<^verbatim>\<open>stop\<close> returns, and it has
  cleared the handle and removed the file: the state is not what it was.
\<close>

theorem stop_clears_handle_counterexample:
  "\<not> active (exited True []) \<and>
   proc (exited True []) = Some 0 \<and> sock (exited True []) \<and>
   fst (stop (exited True [])) = Inr () \<and>
   proc (snd (stop (exited True []))) = None \<and>
   \<not> sock (snd (stop (exited True []))) \<and>
   snd (stop (exited True [])) \<noteq> exited True []"
proof -
  have a: "\<not> active (exited True [])"
    by (simp add: active_def exited_def poll_is_None_def)
  have "proc (snd (stop (exited True []))) \<noteq> proc (exited True [])"
    by (simp add: stop_inactive [OF a]) (simp add: exited_def)
  then have "snd (stop (exited True [])) \<noteq> exited True []" by auto
  then show ?thesis
    using a by (simp add: stop_inactive [OF a]) (simp add: exited_def)
qed

text \<open>
  C7, as amended. Once its \<^verbatim>\<open>stop\<close> step has returned, \<^verbatim>\<open>start\<close> calls \<^verbatim>\<open>Popen\<close> exactly
  once, with the arguments \<^verbatim>\<open>mpv\<close>, the option naming the socket path, the audio
  device, \<^verbatim>\<open>--fullscreen\<close>, \<^verbatim>\<open>--sid 1\<close>, \<^verbatim>\<open>--no-terminal\<close> and the media path last. When the
  \<^verbatim>\<open>stop\<close> step raises, nothing is launched.
\<close>

theorem start_argv:
  "(fst (stop s) = Inr () \<longrightarrow>
      spawned (snd (start media s)) =
        spawned s @
          [[''mpv'', ''--input-ipc-server='' @ socket_path s,
            ''--audio-device=alsa/hdmi:CARD=PCH,DEV=0'', ''--fullscreen'', ''--sid 1'',
            ''--no-terminal'', media]])
   \<and> (fst (stop s) = Inl e \<longrightarrow> spawned (snd (start media s)) = spawned s)"
proof (intro conjI impI)
  assume ok: "fst (stop s) = Inr ()"
  show "spawned (snd (start media s)) =
        spawned s @
          [[''mpv'', ''--input-ipc-server='' @ socket_path s,
            ''--audio-device=alsa/hdmi:CARD=PCH,DEV=0'', ''--fullscreen'', ''--sid 1'',
            ''--no-terminal'', media]]"
    using start_spawned [OF ok, of media] by (simp add: mpv_cmd_def MPV_PARAMS_def)
next
  assume "fst (stop s) = Inl e"
  then have "stop s = (Inl e, snd (stop s))" by (cases "stop s") simp
  from start_stop_fails [OF this] stop_frame [of s]
  show "spawned (snd (start media s)) = spawned s" by simp
qed

theorem start_argv_witness:
  "fst (stop (init [appears])) = Inr () \<and>
   spawned (snd (start ''/media/movie.mkv'' (init [appears]))) =
     [[''mpv'', ''--input-ipc-server=/tmp/mpv-socket'',
       ''--audio-device=alsa/hdmi:CARD=PCH,DEV=0'', ''--fullscreen'', ''--sid 1'',
       ''--no-terminal'', ''/media/movie.mkv'']] \<and>
   fst (stop (stuck ''a'')) = Inl ChannelUnavailable \<and>
   spawned (snd (start ''b'' (stuck ''a''))) = spawned (stuck ''a'')"
  using start_argv [where s = "init [appears]" and media = "''/media/movie.mkv''"]
    start_argv [where s = "stuck ''a''" and media = "''b''" and e = ChannelUnavailable]
  by (simp add: stop_init) (simp add: run_defs MPV_SOCKET_def)

text \<open>
  C7 as stated fails: the argument vector of a successful \<^verbatim>\<open>start\<close> has no option that
  keeps the player running when idle; \<^verbatim>\<open>--sid 1\<close> stands where the other variant of the
  program has \<^verbatim>\<open>--idle=yes\<close>.
\<close>

theorem start_argv_no_idle_counterexample:
  "fst (start ''/media/movie.mkv'' (init [appears])) = Inr () \<and>
   spawned (snd (start ''/media/movie.mkv'' (init [appears]))) =
     [[''mpv'', ''--input-ipc-server=/tmp/mpv-socket'',
       ''--audio-device=alsa/hdmi:CARD=PCH,DEV=0'', ''--fullscreen'', ''--sid 1'',
       ''--no-terminal'', ''/media/movie.mkv'']] \<and>
   ''--idle=yes'' \<notin> set (hd (spawned (snd (start ''/media/movie.mkv'' (init [appears])))))"
  by (simp add: start_init_playing playing_def mpv_cmd_def MPV_PARAMS_def MPV_SOCKET_def)




text \<open>
  C9. Whenever no file exists at the socket path, \<^verbatim>\<open>pause\<close>, \<^verbatim>\<open>seek\<close> and \<^verbatim>\<open>volume\<close> raise
  \<open>ChannelUnavailable\<close> from their first command and leave everything as it was. The
  query that follows the first command in \<^verbatim>\<open>pause\<close> and \<^verbatim>\<open>volume\<close> is not tolerant either:
  when the socket goes away during the first exchange, both raise, while \<^verbatim>\<open>seek\<close>, which
  has only the notification left, returns. When the socket goes away during the query,
  the notification alone is affected and \<^verbatim>\<open>pause\<close> and \<^verbatim>\<open>volume\<close> return.
\<close>

theorem controls_need_socket:
  "(\<not> sock s \<longrightarrow>
      pause s = (Inl ChannelUnavailable, s) \<and>
      seek delta s = (Inl ChannelUnavailable, s) \<and>
      volume str2int delta s = (Inl ChannelUnavailable, s))
   \<and> (sock s \<and> tape s = m # ms \<and> answer m = Reply v \<and> sock_change m = Some False \<longrightarrow>
      fst (pause s) = Inl ChannelUnavailable \<and>
      fst (volume str2int delta s) = Inl ChannelUnavailable \<and>
      fst (seek delta s) = Inr ())
   \<and> (sock s \<and> tape s = m # m' # ms' \<and> answer m = Reply v \<and> sock_change m = None \<and>
       answer m' = Reply (PDict kvs) \<and> sock_change m' = Some False \<longrightarrow>
      fst (pause s) = Inr ())
   \<and> (sock s \<and> tape s = m # m' # ms' \<and> answer m = Reply v \<and> sock_change m = None \<and>
       answer m' = Reply (PDict kvs) \<and> sock_change m' = Some False \<and>
       py_int str2int (py_or (case map_of kvs ''data'' of None \<Rightarrow> PNone | Some x \<Rightarrow> x) (PInt 0)) = Inr vol \<longrightarrow>
      fst (volume str2int delta s) = Inr ())"
proof (intro conjI impI)
  assume "\<not> sock s"
  then show "pause s = (Inl ChannelUnavailable, s)"
    by (simp add: pause_def command_absent and_then_Inl)
  from \<open>\<not> sock s\<close> show "seek delta s = (Inl ChannelUnavailable, s)"
    by (simp add: seek_def command_absent and_then_Inl)
  from \<open>\<not> sock s\<close> show "volume str2int delta s = (Inl ChannelUnavailable, s)"
    by (simp add: volume_def command_absent and_then_Inl)
next
  assume h: "sock s \<and> tape s = m # ms \<and> answer m = Reply v \<and> sock_change m = Some False"
  then have gone: "\<not> sock (after_talk m c s)" for c
    by (simp add: after_move_sock)
  from h gone show "fst (pause s) = Inl ChannelUnavailable"
    by (simp add: pause_def command_Reply and_then_Inr get_absent and_then_Inl)
  from h gone show "fst (volume str2int delta s) = Inl ChannelUnavailable"
    by (simp add: volume_def command_Reply and_then_Inr get_absent and_then_Inl)
  from h gone show "fst (seek delta s) = Inr ()"
    by (simp add: seek_def command_Reply and_then_Inr show_text_absent)
next
  assume h: "sock s \<and> tape s = m # m' # ms' \<and> answer m = Reply v \<and> sock_change m = None \<and>
       answer m' = Reply (PDict kvs) \<and> sock_change m' = Some False"
  define s1 where "s1 = after_talk m [''cycle'', ''pause''] s"
  have c: "command [''cycle'', ''pause''] s = (Inr (), s1)"
    using h by (simp add: command_Reply s1_def)
  have s1: "sock s1" "tape s1 = m' # ms'"
    using h by (simp_all add: s1_def after_move_sock after_move_tape)
  define s2 where "s2 = after_talk m' [''get_property'', ''pause''] s1"
  have g: "get ''pause'' s1 = (dict_get (PDict kvs) ''data'', s2)"
    using h s1 by (simp add: get_Reply s2_def)
  have s2: "\<not> sock s2" using h by (simp add: s2_def after_move_sock)
  show "fst (pause s) = Inr ()"
    by (simp add: pause_def c and_then_Inr g show_text_absent s2)
next
  assume hi: "sock s \<and> tape s = m # m' # ms' \<and> answer m = Reply v \<and> sock_change m = None \<and>
       answer m' = Reply (PDict kvs) \<and> sock_change m' = Some False \<and>
       py_int str2int (py_or (case map_of kvs ''data'' of None \<Rightarrow> PNone | Some x \<Rightarrow> x) (PInt 0)) = Inr vol"
  then have h: "sock s \<and> tape s = m # m' # ms' \<and> answer m = Reply v \<and> sock_change m = None \<and>
       answer m' = Reply (PDict kvs) \<and> sock_change m' = Some False"
   and i: "py_int str2int (py_or (case map_of kvs ''data'' of None \<Rightarrow> PNone | Some x \<Rightarrow> x) (PInt 0)) = Inr vol"
    by simp_all
  define s1 where "s1 = after_talk m [''add'', ''volume'', py_str delta] s"
  have c: "command [''add'', ''volume'', py_str delta] s = (Inr (), s1)"
    using h by (simp add: command_Reply s1_def)
  have s1: "sock s1" "tape s1 = m' # ms'"
    using h by (simp_all add: s1_def after_move_sock after_move_tape)
  define s2 where "s2 = after_talk m' [''get_property'', ''volume''] s1"
  have g: "get ''volume'' s1 = (dict_get (PDict kvs) ''data'', s2)"
    using h s1 by (simp add: get_Reply s2_def)
  have s2: "\<not> sock s2" using h by (simp add: s2_def after_move_sock)
  show "fst (volume str2int delta s) = Inr ()"
    using i by (simp add: volume_def c and_then_Inr g show_text_absent s2)
qed


theorem controls_need_socket_witness:
  "(\<not> sock (init []) \<and> pause (init []) = (Inl ChannelUnavailable, init []) \<and>
      seek 10 (init []) = (Inl ChannelUnavailable, init []) \<and>
      volume no_str 5 (init []) = (Inl ChannelUnavailable, init []))
   \<and> (sock (playing ''a'' [mv (Some False) [] (Reply PNone)]) \<and>
      fst (pause (playing ''a'' [mv (Some False) [] (Reply PNone)])) = Inl ChannelUnavailable \<and>
      fst (volume no_str 5 (playing ''a'' [mv (Some False) [] (Reply PNone)])) = Inl ChannelUnavailable \<and>
      fst (seek 10 (playing ''a'' [mv (Some False) [] (Reply PNone)])) = Inr ())
   \<and> fst (pause (playing ''a'' [bare_reply, mv (Some False) [] (Reply (PDict []))])) = Inr ()
   \<and> fst (volume no_str 5 (playing ''a'' [bare_reply, mv (Some False) [] (Reply (PDict []))])) = Inr ()"
  using controls_need_socket [where s = "init []" and delta = 10 and str2int = no_str]
    controls_need_socket [where s = "init []" and delta = 5 and str2int = no_str]
    controls_need_socket [where s = "playing ''a'' [mv (Some False) [] (Reply PNone)]"
      and m = "mv (Some False) [] (Reply PNone)" and ms = "[]" and v = PNone
      and delta = 10 and str2int = no_str]
    controls_need_socket [where s = "playing ''a'' [mv (Some False) [] (Reply PNone)]"
      and m = "mv (Some False) [] (Reply PNone)" and ms = "[]" and v = PNone
      and delta = 5 and str2int = no_str]
    controls_need_socket [where s = "playing ''a'' [bare_reply, mv (Some False) [] (Reply (PDict []))]"
      and m = bare_reply and m' = "mv (Some False) [] (Reply (PDict []))" and ms' = "[]"
      and v = "PDict [(''error'', PStr ''success'')]" and kvs = "[]" and vol = 0
      and delta = 5 and str2int = no_str]
  by (simp add: init_def playing_def mv_def bare_reply_def py_or_def)

text \<open>
  C10. A reply that is a JSON object without \<^verbatim>\<open>data\<close> makes \<^verbatim>\<open>get\<close> return \<^verbatim>\<open>None\<close>. When
  the three queries of \<^verbatim>\<open>status\<close> are answered so, the snapshot has the empty string for
  \<^verbatim>\<open>file\<close>, \<^verbatim>\<open>False\<close> for \<^verbatim>\<open>paused\<close> and zero for \<^verbatim>\<open>volume\<close>. When the query of
  \<^verbatim>\<open>volume\<close> is answered so, the notification shows \<^verbatim>\<open>0%\<close>.
\<close>

theorem missing_data_defaults:
  "(sock s \<and> tape s = m # ms \<and> answer m = Reply (PDict kvs) \<and> map_of kvs ''data'' = None \<longrightarrow>
      fst (get name s) = Inr PNone)
   \<and> (status_queries s \<and> sock s \<and> tape s = m1 # m2 # m3 # ms' \<and>
       answer m1 = Reply (PDict k1) \<and> answer m2 = Reply (PDict k2) \<and>
       answer m3 = Reply (PDict k3) \<and>
       map_of k1 ''data'' = None \<and> map_of k2 ''data'' = None \<and> map_of k3 ''data'' = None \<and>
       sock_change m1 \<noteq> Some False \<and> sock_change m2 \<noteq> Some False \<longrightarrow>
      fst (status str2int s) =
        Inr [(''running'', PBool True), (''file'', PStr []),
             (''paused'', PBool False), (''volume'', PInt 0)])
   \<and> (sock s \<and> tape s = m1 # m2 # m3 # ms' \<and>
       answer m1 = Reply v1 \<and> answer m2 = Reply (PDict k2) \<and> answer m3 = Reply v3 \<and>
       map_of k2 ''data'' = None \<and>
       sock_change m1 \<noteq> Some False \<and> sock_change m2 \<noteq> Some False \<longrightarrow>
      fst (volume str2int delta s) = Inr () \<and>
      sent (snd (volume str2int delta s)) =
        sent s @
          [[''add'', ''volume'', py_str delta],
           [''get_property'', ''volume''],
           [''show-text'', text_volume @ ''0%'', ''1000'']])"
proof (intro conjI impI)
  assume "sock s \<and> tape s = m # ms \<and> answer m = Reply (PDict kvs) \<and> map_of kvs ''data'' = None"
  then show "fst (get name s) = Inr PNone"
    by (simp add: get_dict data_of_missing)
next
  assume h: "status_queries s \<and> sock s \<and> tape s = m1 # m2 # m3 # ms' \<and>
       answer m1 = Reply (PDict k1) \<and> answer m2 = Reply (PDict k2) \<and>
       answer m3 = Reply (PDict k3) \<and>
       map_of k1 ''data'' = None \<and> map_of k2 ''data'' = None \<and> map_of k3 ''data'' = None \<and>
       sock_change m1 \<noteq> Some False \<and> sock_change m2 \<noteq> Some False"
  then have q: "status_queries s" and s: "sock s" and t: "tape s = m1 # m2 # m3 # ms'"
    and a1: "answer m1 = Reply (PDict k1)" and a2: "answer m2 = Reply (PDict k2)"
    and a3: "answer m3 = Reply (PDict k3)"
    and c1: "sock_change m1 \<noteq> Some False" and c2: "sock_change m2 \<noteq> Some False"
    and d: "data_of k1 = PNone" "data_of k2 = PNone" "data_of k3 = PNone"
    by (simp_all add: data_of_missing)
  have b: "basename (py_or (data_of k1) (PStr [])) = Inr []"
    and i: "py_int str2int (py_or (data_of k3) (PInt 0)) = Inr 0"
    by (simp_all add: d falsy_defaults)
  from status_replies [OF q s t a1 a2 a3 c1 c2 b i]
  show "fst (status str2int s) =
        Inr [(''running'', PBool True), (''file'', PStr []),
             (''paused'', PBool False), (''volume'', PInt 0)]"
    by (simp add: d)
next
  assume h: "sock s \<and> tape s = m1 # m2 # m3 # ms' \<and>
       answer m1 = Reply v1 \<and> answer m2 = Reply (PDict k2) \<and> answer m3 = Reply v3 \<and>
       map_of k2 ''data'' = None \<and>
       sock_change m1 \<noteq> Some False \<and> sock_change m2 \<noteq> Some False"
  define s1 where "s1 = after_talk m1 [''add'', ''volume'', py_str delta] s"
  define s2 where "s2 = after_talk m2 [''get_property'', ''volume''] s1"
  define s3 where
    "s3 = after_talk m3 [''show-text'', text_volume @ ''0%'', py_str 1000] s2"
  have c: "command [''add'', ''volume'', py_str delta] s = (Inr (), s1)"
    using h by (simp add: command_Reply s1_def)
  have s1: "sock s1" "tape s1 = m2 # m3 # ms'"
    using h by (simp_all add: s1_def stays_sock after_move_tape)
  have g: "get ''volume'' s1 = (Inr PNone, s2)"
    using h s1 by (simp add: get_dict s2_def data_of_missing)
  have s2: "sock s2" "tape s2 = m3 # ms'"
    using h s1 by (simp_all add: s2_def stays_sock after_move_tape)
  have t: "show_text (text_volume @ ''0%'') 1000 s2 = (Inr (), s3)"
    using h s2 by (simp add: show_text_Reply s3_def)
  have v: "volume str2int delta s = (Inr (), s3)"
    by (simp add: volume_def c g t and_then_Inr py_or_def py_str_0)
  show "fst (volume str2int delta s) = Inr ()" by (simp add: v)
  show "sent (snd (volume str2int delta s)) =
        sent s @
          [[''add'', ''volume'', py_str delta],
           [''get_property'', ''volume''],
           [''show-text'', text_volume @ ''0%'', ''1000'']]"
    by (simp add: v s3_def s2_def s1_def py_str_1000 after_talk_sent)
qed

theorem missing_data_defaults_witness:
  "fst (get ''volume'' (playing ''a'' [bare_reply])) = Inr PNone
   \<and> status_queries (exited True [bare_reply, bare_reply, bare_reply])
   \<and> fst (status no_str (exited True [bare_reply, bare_reply, bare_reply])) =
        Inr [(''running'', PBool True), (''file'', PStr []),
             (''paused'', PBool False), (''volume'', PInt 0)]
   \<and> fst (volume no_str 5 (playing ''a'' [bare_reply, bare_reply, bare_reply])) = Inr ()
   \<and> sent (snd (volume no_str 5 (playing ''a'' [bare_reply, bare_reply, bare_reply]))) =
        [[''add'', ''volume'', ''5''],
         [''get_property'', ''volume''],
         [''show-text'', text_volume @ ''0%'', ''1000'']]"
  using missing_data_defaults [where s = "playing ''a'' [bare_reply]" and m = bare_reply
      and ms = "[]" and kvs = "[(''error'', PStr ''success'')]" and name = "''volume''"]
    missing_data_defaults [where s = "exited True [bare_reply, bare_reply, bare_reply]"
      and ?str2int = no_str and ?m1.0 = bare_reply and ?m2.0 = bare_reply and ?m3.0 = bare_reply
      and ms' = "[]" and ?k1.0 = "[(''error'', PStr ''success'')]"
      and ?k2.0 = "[(''error'', PStr ''success'')]" and ?k3.0 = "[(''error'', PStr ''success'')]"]
    missing_data_defaults [where s = "playing ''a'' [bare_reply, bare_reply, bare_reply]"
      and ?str2int = no_str and delta = 5
      and ?m1.0 = bare_reply and ?m2.0 = bare_reply and ?m3.0 = bare_reply
      and ms' = "[]" and ?v1.0 = "PDict [(''error'', PStr ''success'')]"
      and ?k2.0 = "[(''error'', PStr ''success'')]"
      and ?v3.0 = "PDict [(''error'', PStr ''success'')]"]
  by (simp add: status_queries_def playing_def exited_def poll_is_None_def mv_def
      bare_reply_def py_str_def)

end
